theory Spec2Isabelle
  imports Complex_Main
begin

section \<open>Numbers\<close>

text \<open>
  The program is TypeScript; every \<^verbatim>\<open>number\<close> is an IEEE double. The embedding uses
  \<^typ>\<open>real\<close>: arithmetic is exact, and rounding, overflow, infinities and NaN are outside
  the model. \<^verbatim>\<open>Math.sqrt\<close>, \<^verbatim>\<open>Math.exp\<close>, \<^verbatim>\<open>Math.cos\<close>, \<^verbatim>\<open>Math.sin\<close> are
  \<^const>\<open>sqrt\<close>, \<^const>\<open>exp\<close>, \<^const>\<open>cos\<close>, \<^const>\<open>sin\<close>. Two operations of HOL are total where
  the double operation leaves the reals: \<open>x / 0\<close> is \<open>0\<close> in HOL (an infinity or NaN in
  the program) and \<open>sqrt\<close> of a negative number is negative in HOL (NaN in the program).
  Theorems whose conclusion depends on such a value carry the hypothesis that keeps the
  argument inside the domain on which both agree (a positive divisor, a non-negative
  radicand). One property depends on overflow itself, the ranges of the point estimates of
  the estimator, which a NaN leaves: for it the estimator is embedded a second time, over
  doubles with the infinities and NaN (the section on doubles below), and the property is
  stated of that embedding. An optional field (\<^verbatim>\<open>heart_rate?: number\<close>, compared with
  \<^verbatim>\<open>undefined\<close>) is an \<^typ>\<open>'a option\<close>.
\<close>

section \<open>types.ts\<close>

record BeliefState =
  arousal :: real
  attention :: real
  rhythm_alignment :: real
  valence :: real
  arousal_variance :: real
  attention_variance :: real
  rhythm_variance :: real
  prediction_error :: real
  innovation :: real
  mahalanobis_distance :: real
  confidence :: real

datatype interaction = pause | resume | touch

datatype visibility = visible | hidden

record Observation =
  timestamp :: real
  delta_time :: real
  user_interaction :: "interaction option"
  visibilty_state :: visibility
  heart_rate :: "real option"
  hr_confidence :: "real option"
  respiration_rate :: "real option"
  stress_index :: "real option"
  facial_valence :: "real option"

datatype BreathPhase = inhale | holdIn | exhale | holdOut

text \<open>
  A \<^verbatim>\<open>BreathPattern\<close>: the identifier, the duration of each phase
  (\<^verbatim>\<open>timings: Record<BreathPhase, number>\<close>), the recommended cycle count and the
  tier. The display texts and the colour theme play no part in any computation and are
  left out. \<^verbatim>\<open>BREATHING_PATTERNS\<close> is the table of the eleven patterns, by
  identifier.
\<close>

record BreathPattern =
  pattern_id :: string
  timings :: "BreathPhase \<Rightarrow> real"
  recommendedCycles :: nat
  tier :: nat

fun phase_timings :: "real \<Rightarrow> real \<Rightarrow> real \<Rightarrow> real \<Rightarrow> BreathPhase \<Rightarrow> real" where
  "phase_timings i hi ex ho inhale = i"
| "phase_timings i hi ex ho holdIn = hi"
| "phase_timings i hi ex ho exhale = ex"
| "phase_timings i hi ex ho holdOut = ho"

definition BREATHING_PATTERNS :: "string \<Rightarrow> BreathPattern option" where
  "BREATHING_PATTERNS = map_of
     [(''4-7-8'', \<lparr>pattern_id = ''4-7-8'', timings = phase_timings 4 7 8 0, recommendedCycles = 4, tier = 1\<rparr>),
      (''box'', \<lparr>pattern_id = ''box'', timings = phase_timings 4 4 4 4, recommendedCycles = 6, tier = 1\<rparr>),
      (''calm'', \<lparr>pattern_id = ''calm'', timings = phase_timings 4 0 6 0, recommendedCycles = 8, tier = 1\<rparr>),
      (''coherence'', \<lparr>pattern_id = ''coherence'', timings = phase_timings 6 0 6 0, recommendedCycles = 10, tier = 2\<rparr>),
      (''deep-relax'', \<lparr>pattern_id = ''deep-relax'', timings = phase_timings 4 0 8 0, recommendedCycles = 6, tier = 1\<rparr>),
      (''7-11'', \<lparr>pattern_id = ''7-11'', timings = phase_timings 7 0 11 0, recommendedCycles = 4, tier = 2\<rparr>),
      (''awake'', \<lparr>pattern_id = ''awake'', timings = phase_timings 4 0 2 0, recommendedCycles = 15, tier = 2\<rparr>),
      (''triangle'', \<lparr>pattern_id = ''triangle'', timings = phase_timings 4 4 4 0, recommendedCycles = 8, tier = 1\<rparr>),
      (''tactical'', \<lparr>pattern_id = ''tactical'', timings = phase_timings 5 5 5 5, recommendedCycles = 5, tier = 2\<rparr>),
      (''buteyko'', \<lparr>pattern_id = ''buteyko'', timings = phase_timings 3 0 3 4, recommendedCycles = 12, tier = 3\<rparr>),
      (''wim-hof'', \<lparr>pattern_id = ''wim-hof'', timings = phase_timings 2 0 1 15, recommendedCycles = 30, tier = 3\<rparr>)]"

text \<open>
  \<^verbatim>\<open>SafetyProfile\<close> and \<^verbatim>\<open>KernelEvent\<close>. The arguments of an event are its fields
  in the order of the type, the timestamp last. A registry
  (\<^verbatim>\<open>Record<string, SafetyProfile>\<close>) carried by an event is an association list;
  \<^verbatim>\<open>parameters: any\<close> is kept as text.
\<close>

record SafetyProfile =
  patternId :: string
  cummulative_stress_score :: real
  last_incident_timestamp :: real
  safety_lock_until :: real
  resonance_history :: "real list"

datatype interruption = pause_interruption | background

datatype KernelEvent =
    BOOT real
  | LOAD_PROTOCOL string real
  | START_SESSION real
  | TICK real Observation real
  | BELIEF_UPDATE BeliefState real
  | PHASE_TRANSITION BreathPhase BreathPhase real
  | CYCLE_COMPLETE nat real
  | INTERRUPTION interruption real
  | RESUME real
  | HALT string real
  | SAFETY_INTERDICTION real string real
  | LOAD_SAFETY_REGISTRY "(string \<times> SafetyProfile) list" real
  | ADJUST_TEMPO real string real
  | AI_INTERVENTION string string real
  | AI_VOICE_MESSAGE string string real

section \<open>AdaptiveStateEstimator.ts\<close>

text \<open>
  \<^verbatim>\<open>Required<EstimatorConfig>\<close>, the configuration the estimator stores, and the
  constructor's argument, in which every field may be missing.
\<close>

record EstimatorConfig =
  alpha :: real
  adaptive_r :: bool
  r_adaptation_rate :: real
  q_base :: real
  r_base :: real
  outlier_threshold :: real

record EstimatorConfigArg =
  arg_alpha :: "real option"
  arg_adaptive_r :: "bool option"
  arg_r_adaptation_rate :: "real option"
  arg_q_base :: "real option"
  arg_r_base :: "real option"
  arg_outlier_threshold :: "real option"

record TargetState =
  target_arousal :: real
  target_attention :: real
  target_rhythm_alignment :: real
  target_valence :: real

datatype target_key = parasympathetic | balanced | sympathetic | default_target

fun PROTOCOL_TARGETS :: "target_key \<Rightarrow> TargetState" where
  "PROTOCOL_TARGETS parasympathetic =
     \<lparr>target_arousal = 0.2, target_attention = 0.5, target_rhythm_alignment = 0.8, target_valence = 0.6\<rparr>"
| "PROTOCOL_TARGETS balanced =
     \<lparr>target_arousal = 0.4, target_attention = 0.7, target_rhythm_alignment = 0.9, target_valence = 0.5\<rparr>"
| "PROTOCOL_TARGETS sympathetic =
     \<lparr>target_arousal = 0.7, target_attention = 0.8, target_rhythm_alignment = 0.6, target_valence = 0.7\<rparr>"
| "PROTOCOL_TARGETS default_target =
     \<lparr>target_arousal = 0.5, target_attention = 0.6, target_rhythm_alignment = 0.7, target_valence = 0.5\<rparr>"

definition PATTERN_TO_TARGET :: "string \<Rightarrow> target_key option" where
  "PATTERN_TO_TARGET = map_of
     [(''4-7-8'', parasympathetic),
      (''deep-relax'', parasympathetic),
      (''7-11'', parasympathetic),
      (''coherence'', balanced),
      (''calm'', balanced),
      (''box'', balanced),
      (''triangle'', balanced),
      (''tactical'', balanced),
      (''awake'', sympathetic),
      (''wim-hof'', sympathetic),
      (''buteyko'', parasympathetic)]"

record AdaptiveStateEstimator =
  belief :: BeliefState
  target :: TargetState
  config :: EstimatorConfig

definition TAU_AROUSAL :: real where "TAU_AROUSAL = 15.0"
definition TAU_ATTENTION :: real where "TAU_ATTENTION = 5.0"
definition TAU_RHYTHM :: real where "TAU_RHYTHM = 10.0"
definition TAU_VALENCE :: real where "TAU_VALENCE = 8.0"

text \<open>\<^verbatim>\<open>config.x ?? d\<close>: the default where the field is missing.\<close>

definition default_config :: EstimatorConfig where
  "default_config =
     \<lparr>alpha = 1 / 1000, adaptive_r = True, r_adaptation_rate = 0.2,
      q_base = 0.01, r_base = 0.15, outlier_threshold = 3.0\<rparr>"

definition no_config :: EstimatorConfigArg where
  "no_config =
     \<lparr>arg_alpha = None, arg_adaptive_r = None, arg_r_adaptation_rate = None,
      arg_q_base = None, arg_r_base = None, arg_outlier_threshold = None\<rparr>"

definition initial_belief :: BeliefState where
  "initial_belief =
     \<lparr>arousal = 0.5, attention = 0.5, rhythm_alignment = 0.0, valence = 0.0,
      arousal_variance = 0.2, attention_variance = 0.2, rhythm_variance = 0.3,
      prediction_error = 0.0, innovation = 0.0, mahalanobis_distance = 0.0,
      confidence = 0.0\<rparr>"

definition constructor :: "EstimatorConfigArg \<Rightarrow> AdaptiveStateEstimator" where
  "constructor c =
     \<lparr>belief = initial_belief,
      target = PROTOCOL_TARGETS default_target,
      config =
        \<lparr>alpha = (case arg_alpha c of Some v \<Rightarrow> v | None \<Rightarrow> alpha default_config),
         adaptive_r = (case arg_adaptive_r c of Some v \<Rightarrow> v | None \<Rightarrow> adaptive_r default_config),
         r_adaptation_rate =
           (case arg_r_adaptation_rate c of Some v \<Rightarrow> v | None \<Rightarrow> r_adaptation_rate default_config),
         q_base = (case arg_q_base c of Some v \<Rightarrow> v | None \<Rightarrow> q_base default_config),
         r_base = (case arg_r_base c of Some v \<Rightarrow> v | None \<Rightarrow> r_base default_config),
         outlier_threshold =
           (case arg_outlier_threshold c of Some v \<Rightarrow> v | None \<Rightarrow> outlier_threshold default_config)\<rparr>\<rparr>"

definition setProtocol :: "AdaptiveStateEstimator \<Rightarrow> BreathPattern option \<Rightarrow> AdaptiveStateEstimator" where
  "setProtocol e pattern =
     (case pattern of
        None \<Rightarrow> e\<lparr>target := PROTOCOL_TARGETS default_target\<rparr>
      | Some p \<Rightarrow>
          (let targetKey = (case PATTERN_TO_TARGET (pattern_id p) of Some k \<Rightarrow> k | None \<Rightarrow> default_target)
           in e\<lparr>target := PROTOCOL_TARGETS targetKey\<rparr>))"

text \<open>\<^verbatim>\<open>clamp(value, min = 0, max = 1)\<close>; the call sites write the defaults out.\<close>

definition clamp :: "real \<Rightarrow> real \<Rightarrow> real \<Rightarrow> real" where
  "clamp v lo hi = max lo (min hi v)"

definition predict :: "AdaptiveStateEstimator \<Rightarrow> real \<Rightarrow> BeliefState" where
  "predict e dt =
     (let b = belief e;
          alpha_arousal = 1 - exp (- dt / TAU_AROUSAL);
          alpha_attention = 1 - exp (- dt / TAU_ATTENTION);
          alpha_rhythm = 1 - exp (- dt / TAU_RHYTHM);
          alpha_valence = 1 - exp (- dt / TAU_VALENCE);
          predicted_arousal = arousal b + alpha_arousal * (target_arousal (target e) - arousal b);
          predicted_attention = attention b + alpha_attention * (target_attention (target e) - attention b);
          predicted_rhythm =
            rhythm_alignment b + alpha_rhythm * (target_rhythm_alignment (target e) - rhythm_alignment b);
          predicted_valence = valence b + alpha_valence * (target_valence (target e) - valence b);
          Q = q_base (config e) * dt
      in \<lparr>arousal = clamp predicted_arousal 0 1,
          attention = clamp predicted_attention 0 1,
          rhythm_alignment = clamp predicted_rhythm 0 1,
          valence = clamp predicted_valence (- 1) 1,
          arousal_variance = arousal_variance b + Q,
          attention_variance = attention_variance b + Q,
          rhythm_variance = rhythm_variance b + Q,
          prediction_error = 0,
          innovation = 0,
          mahalanobis_distance = 0,
          confidence = 0\<rparr>)"

text \<open>
  The locals of the arousal correction of \<^verbatim>\<open>correct\<close>, named as in the source:
  \<^verbatim>\<open>measured_arousal\<close> (heart rate normalised to 50..120 bpm, blended 60/40 with the
  stress index when there is one, clamped), the measurement noise \<^verbatim>\<open>R\<close>, the innovation
  covariance \<^verbatim>\<open>S\<close>, the gain \<^verbatim>\<open>K_arousal\<close> and the outlier score \<^verbatim>\<open>mahalanobis\<close>.
\<close>

definition measured_arousal :: "real \<Rightarrow> real option \<Rightarrow> real" where
  "measured_arousal hr si =
     (let m0 = (hr - 50) / 70;
          m1 = (case si of
                  None \<Rightarrow> m0
                | Some s \<Rightarrow> (let stress_norm = min 1 (s / 300) in 0.6 * m0 + 0.4 * stress_norm))
      in clamp m1 0 1)"

definition R_arousal :: "EstimatorConfig \<Rightarrow> real \<Rightarrow> real" where
  "R_arousal cfg hc =
     (if adaptive_r cfg then r_base cfg + (1 - hc) * r_adaptation_rate cfg else r_base cfg)"

definition S_arousal :: "EstimatorConfig \<Rightarrow> BeliefState \<Rightarrow> real \<Rightarrow> real" where
  "S_arousal cfg predicted hc = arousal_variance predicted + R_arousal cfg hc"

definition K_arousal :: "EstimatorConfig \<Rightarrow> BeliefState \<Rightarrow> real \<Rightarrow> real" where
  "K_arousal cfg predicted hc = arousal_variance predicted / S_arousal cfg predicted hc"

definition mahalanobis :: "EstimatorConfig \<Rightarrow> BeliefState \<Rightarrow> real \<Rightarrow> real \<Rightarrow> real" where
  "mahalanobis cfg predicted hc innov = sqrt ((innov * innov) / S_arousal cfg predicted hc)"

text \<open>
  The three sections of \<^verbatim>\<open>correct\<close>. Each takes the record \<^verbatim>\<open>corrected\<close> as the
  section finds it and returns it as the section leaves it; the arousal section also
  returns \<^verbatim>\<open>currentInnovation\<close> and \<^verbatim>\<open>mahalanobis\<close>.
\<close>

definition correct_arousal ::
  "EstimatorConfig \<Rightarrow> BeliefState \<Rightarrow> Observation \<Rightarrow> BeliefState \<times> real \<times> real" where
  "correct_arousal cfg predicted obs =
     (case heart_rate obs of
        None \<Rightarrow> (predicted, 0, 0)
      | Some hr \<Rightarrow>
          (case hr_confidence obs of
             None \<Rightarrow> (predicted, 0, 0)
           | Some hc \<Rightarrow>
               if hc > 0.3 then
                 (let innov = measured_arousal hr (stress_index obs) - arousal predicted;
                      m = mahalanobis cfg predicted hc innov
                  in if m < outlier_threshold cfg
                     then (predicted
                             \<lparr>arousal := arousal predicted + K_arousal cfg predicted hc * innov,
                              arousal_variance := (1 - K_arousal cfg predicted hc) * arousal_variance predicted\<rparr>,
                           innov, m)
                     else (predicted\<lparr>arousal_variance := arousal_variance predicted + 0.01\<rparr>, 0, m))
               else (predicted, 0, 0)))"

definition correct_valence :: "BeliefState \<Rightarrow> Observation \<Rightarrow> BeliefState" where
  "correct_valence corrected obs =
     (case facial_valence obs of
        None \<Rightarrow> corrected
      | Some fv \<Rightarrow> corrected\<lparr>valence := 0.8 * valence corrected + 0.2 * fv\<rparr>)"

definition correct_attention :: "BeliefState \<Rightarrow> BeliefState \<Rightarrow> Observation \<Rightarrow> real \<Rightarrow> BeliefState" where
  "correct_attention predicted corrected obs dt =
     (let isDistracted = (user_interaction obs = Some pause \<or> visibilty_state obs = hidden)
      in if isDistracted
         then corrected\<lparr>attention := attention predicted * 0.95\<rparr>
         else corrected\<lparr>attention := min 1 (attention corrected + 0.15 * dt)\<rparr>)"

definition correct :: "AdaptiveStateEstimator \<Rightarrow> BeliefState \<Rightarrow> Observation \<Rightarrow> real \<Rightarrow> BeliefState" where
  "correct e predicted obs dt =
     (case correct_arousal (config e) predicted obs of
        (c1, currentInnovation, m) \<Rightarrow>
          (let c2 = correct_valence c1 obs;
               c3 = correct_attention predicted c2 obs dt
           in c3\<lparr>innovation := currentInnovation,
                 mahalanobis_distance := m,
                 arousal := clamp (arousal c3) 0 1,
                 attention := clamp (attention c3) 0 1,
                 rhythm_alignment := clamp (rhythm_alignment c3) 0 1,
                 valence := clamp (valence c3) (- 1) 1\<rparr>))"

definition computePredictionError :: "AdaptiveStateEstimator \<Rightarrow> BeliefState \<Rightarrow> real" where
  "computePredictionError e state =
     (let error_arousal = (arousal state - target_arousal (target e))\<^sup>2;
          error_rhythm = (rhythm_alignment state - target_rhythm_alignment (target e))\<^sup>2
      in sqrt (0.5 * error_arousal + 0.5 * error_rhythm))"

text \<open>
  \<^verbatim>\<open>Math.pow(x, 0.5)\<close> is \<open>sqrt x\<close> for \<open>0 \<le> x\<close>; \<^verbatim>\<open>obs.hr_confidence ?? 0.5\<close> is
  the case on the option.
\<close>

definition computeConfidence :: "BeliefState \<Rightarrow> Observation \<Rightarrow> real" where
  "computeConfidence state obs =
     (let certainty = 1 - min 1 ((arousal_variance state + attention_variance state) / 2);
          sensor_quality = (case hr_confidence obs of Some c \<Rightarrow> c | None \<Rightarrow> 0.5)
      in clamp (sqrt (certainty * sensor_quality)) 0 1)"

text \<open>
  \<^verbatim>\<open>update\<close> returns a copy of the new belief and stores it: the pair of the returned
  belief and the estimator after the call.
\<close>

definition update ::
  "AdaptiveStateEstimator \<Rightarrow> Observation \<Rightarrow> real \<Rightarrow> BeliefState \<times> AdaptiveStateEstimator" where
  "update e obs dt =
     (let predicted = predict e dt;
          corrected = correct e predicted obs dt;
          corrected1 = corrected\<lparr>prediction_error := computePredictionError e corrected\<rparr>;
          corrected2 = corrected1\<lparr>confidence := computeConfidence corrected1 obs\<rparr>
      in (corrected2, e\<lparr>belief := corrected2\<rparr>))"

section \<open>AdaptiveStateEstimator.ts over doubles with overflow\<close>

text \<open>
  Exact reals cannot show what a \<^verbatim>\<open>number\<close> does when it leaves the range of a double:
  \<^verbatim>\<open>Math.exp\<close> of a large argument is \<^verbatim>\<open>Infinity\<close>, \<^verbatim>\<open>Infinity * 0\<close> is NaN, and
  \<^verbatim>\<open>Math.max\<close> and \<^verbatim>\<open>Math.min\<close> return NaN when an argument is NaN, so that
  \<^verbatim>\<open>clamp\<close> lets NaN through. Whether the point estimates stay in their ranges depends on
  exactly that. This section embeds \<^verbatim>\<open>predict\<close>, \<^verbatim>\<open>correct\<close> and \<^verbatim>\<open>update\<close> a
  second time, over the values of a double: a finite number, the two infinities, or NaN.
  The operations follow IEEE 754 on the infinities and NaN; on finite numbers they are
  exact, and a result beyond the largest double overflows to the infinity of its sign.
  Rounding is still not modelled and the two zeros are one (a quotient by zero takes the
  sign of the dividend).
\<close>

datatype double = Fin real | PosInf | NegInf | NaN

definition max_double :: real where
  "max_double = (2 - 1 / 2 ^ 52) * 2 ^ 1023"

definition overflow :: "real \<Rightarrow> double" where
  "overflow x = (if x > max_double then PosInf else if x < - max_double then NegInf else Fin x)"

fun dneg :: "double \<Rightarrow> double" where
  "dneg (Fin x) = Fin (- x)"
| "dneg PosInf = NegInf"
| "dneg NegInf = PosInf"
| "dneg NaN = NaN"

fun dadd :: "double \<Rightarrow> double \<Rightarrow> double" where
  "dadd NaN b = NaN"
| "dadd a NaN = NaN"
| "dadd PosInf NegInf = NaN"
| "dadd NegInf PosInf = NaN"
| "dadd PosInf b = PosInf"
| "dadd a PosInf = PosInf"
| "dadd NegInf b = NegInf"
| "dadd a NegInf = NegInf"
| "dadd (Fin x) (Fin y) = overflow (x + y)"

definition dsub :: "double \<Rightarrow> double \<Rightarrow> double" where
  "dsub a b = dadd a (dneg b)"

text \<open>
  The sign of a value that is not NaN, for the products and quotients that involve an
  infinity: \<open>Some 1\<close>, \<open>Some 0\<close> or \<open>Some (- 1)\<close>.
\<close>

fun dsign :: "double \<Rightarrow> int option" where
  "dsign (Fin x) = Some (if x > 0 then 1 else if x < 0 then - 1 else 0)"
| "dsign PosInf = Some 1"
| "dsign NegInf = Some (- 1)"
| "dsign NaN = None"

definition signed_inf :: "int \<Rightarrow> double" where
  "signed_inf s = (if s > 0 then PosInf else if s < 0 then NegInf else NaN)"

fun dmul :: "double \<Rightarrow> double \<Rightarrow> double" where
  "dmul (Fin x) (Fin y) = overflow (x * y)"
| "dmul a b =
     (case dsign a of
        None \<Rightarrow> NaN
      | Some s \<Rightarrow> (case dsign b of None \<Rightarrow> NaN | Some t \<Rightarrow> signed_inf (s * t)))"

fun ddiv :: "double \<Rightarrow> double \<Rightarrow> double" where
  "ddiv (Fin x) (Fin y) =
     (if y = 0 then (if x > 0 then PosInf else if x < 0 then NegInf else NaN)
      else overflow (x / y))"
| "ddiv (Fin x) PosInf = Fin 0"
| "ddiv (Fin x) NegInf = Fin 0"
| "ddiv PosInf (Fin y) = (if y \<ge> 0 then PosInf else NegInf)"
| "ddiv NegInf (Fin y) = (if y \<ge> 0 then NegInf else PosInf)"
| "ddiv a b = NaN"

fun dsqrt :: "double \<Rightarrow> double" where
  "dsqrt (Fin x) = (if x < 0 then NaN else Fin (sqrt x))"
| "dsqrt PosInf = PosInf"
| "dsqrt NegInf = NaN"
| "dsqrt NaN = NaN"

text \<open>\<^verbatim>\<open>Math.pow(x, 0.5)\<close>: as the square root, but \<^verbatim>\<open>Infinity\<close> at \<^verbatim>\<open>-Infinity\<close>.\<close>

fun dpow_half :: "double \<Rightarrow> double" where
  "dpow_half (Fin x) = (if x < 0 then NaN else Fin (sqrt x))"
| "dpow_half PosInf = PosInf"
| "dpow_half NegInf = PosInf"
| "dpow_half NaN = NaN"

fun dexp :: "double \<Rightarrow> double" where
  "dexp (Fin x) = overflow (exp x)"
| "dexp PosInf = PosInf"
| "dexp NegInf = Fin 0"
| "dexp NaN = NaN"

text \<open>\<^verbatim>\<open>Math.min\<close> and \<^verbatim>\<open>Math.max\<close>: NaN as soon as one argument is NaN.\<close>

fun dmin :: "double \<Rightarrow> double \<Rightarrow> double" where
  "dmin NaN b = NaN"
| "dmin a NaN = NaN"
| "dmin NegInf b = NegInf"
| "dmin a NegInf = NegInf"
| "dmin PosInf b = b"
| "dmin a PosInf = a"
| "dmin (Fin x) (Fin y) = Fin (min x y)"

fun dmax :: "double \<Rightarrow> double \<Rightarrow> double" where
  "dmax NaN b = NaN"
| "dmax a NaN = NaN"
| "dmax PosInf b = PosInf"
| "dmax a PosInf = PosInf"
| "dmax NegInf b = b"
| "dmax a NegInf = a"
| "dmax (Fin x) (Fin y) = Fin (max x y)"

text \<open>The comparison \<^verbatim>\<open>a < b\<close>: false as soon as one side is NaN.\<close>

fun dless :: "double \<Rightarrow> double \<Rightarrow> bool" where
  "dless NaN b = False"
| "dless a NaN = False"
| "dless a NegInf = False"
| "dless PosInf b = False"
| "dless NegInf b = True"
| "dless a PosInf = True"
| "dless (Fin x) (Fin y) = (x < y)"

definition clamp_double :: "double \<Rightarrow> double \<Rightarrow> double \<Rightarrow> double" where
  "clamp_double v lo hi = dmax lo (dmin hi v)"

text \<open>
  The belief a call returns, every field a double. The call starts from an estimator whose
  stored numbers, configuration, observation and \<open>dt\<close> are finite, so these stay reals.
\<close>

record BeliefDouble =
  d_arousal :: double
  d_attention :: double
  d_rhythm_alignment :: double
  d_valence :: double
  d_arousal_variance :: double
  d_attention_variance :: double
  d_rhythm_variance :: double
  d_prediction_error :: double
  d_innovation :: double
  d_mahalanobis_distance :: double
  d_confidence :: double

definition predict_double :: "AdaptiveStateEstimator \<Rightarrow> real \<Rightarrow> BeliefDouble" where
  "predict_double e dt =
     (let b = belief e;
          alpha_arousal = dsub (Fin 1) (dexp (ddiv (Fin (- dt)) (Fin TAU_AROUSAL)));
          alpha_attention = dsub (Fin 1) (dexp (ddiv (Fin (- dt)) (Fin TAU_ATTENTION)));
          alpha_rhythm = dsub (Fin 1) (dexp (ddiv (Fin (- dt)) (Fin TAU_RHYTHM)));
          alpha_valence = dsub (Fin 1) (dexp (ddiv (Fin (- dt)) (Fin TAU_VALENCE)));
          predicted_arousal =
            dadd (Fin (arousal b))
              (dmul alpha_arousal (dsub (Fin (target_arousal (target e))) (Fin (arousal b))));
          predicted_attention =
            dadd (Fin (attention b))
              (dmul alpha_attention (dsub (Fin (target_attention (target e))) (Fin (attention b))));
          predicted_rhythm =
            dadd (Fin (rhythm_alignment b))
              (dmul alpha_rhythm
                 (dsub (Fin (target_rhythm_alignment (target e))) (Fin (rhythm_alignment b))));
          predicted_valence =
            dadd (Fin (valence b))
              (dmul alpha_valence (dsub (Fin (target_valence (target e))) (Fin (valence b))));
          Q = dmul (Fin (q_base (config e))) (Fin dt)
      in \<lparr>d_arousal = clamp_double predicted_arousal (Fin 0) (Fin 1),
          d_attention = clamp_double predicted_attention (Fin 0) (Fin 1),
          d_rhythm_alignment = clamp_double predicted_rhythm (Fin 0) (Fin 1),
          d_valence = clamp_double predicted_valence (Fin (- 1)) (Fin 1),
          d_arousal_variance = dadd (Fin (arousal_variance b)) Q,
          d_attention_variance = dadd (Fin (attention_variance b)) Q,
          d_rhythm_variance = dadd (Fin (rhythm_variance b)) Q,
          d_prediction_error = Fin 0,
          d_innovation = Fin 0,
          d_mahalanobis_distance = Fin 0,
          d_confidence = Fin 0\<rparr>)"

definition measured_arousal_double :: "real \<Rightarrow> real option \<Rightarrow> double" where
  "measured_arousal_double hr si =
     (let m0 = ddiv (dsub (Fin hr) (Fin 50)) (Fin 70);
          m1 = (case si of
                  None \<Rightarrow> m0
                | Some s \<Rightarrow>
                    (let stress_norm = dmin (Fin 1) (ddiv (Fin s) (Fin 300))
                     in dadd (dmul (Fin 0.6) m0) (dmul (Fin 0.4) stress_norm)))
      in clamp_double m1 (Fin 0) (Fin 1))"

definition R_arousal_double :: "EstimatorConfig \<Rightarrow> real \<Rightarrow> double" where
  "R_arousal_double cfg hc =
     (if adaptive_r cfg
      then dadd (Fin (r_base cfg)) (dmul (dsub (Fin 1) (Fin hc)) (Fin (r_adaptation_rate cfg)))
      else Fin (r_base cfg))"

definition correct_arousal_double ::
  "EstimatorConfig \<Rightarrow> BeliefDouble \<Rightarrow> Observation \<Rightarrow> BeliefDouble \<times> double \<times> double" where
  "correct_arousal_double cfg predicted obs =
     (case heart_rate obs of
        None \<Rightarrow> (predicted, Fin 0, Fin 0)
      | Some hr \<Rightarrow>
          (case hr_confidence obs of
             None \<Rightarrow> (predicted, Fin 0, Fin 0)
           | Some hc \<Rightarrow>
               if hc > 0.3 then
                 (let S = dadd (d_arousal_variance predicted) (R_arousal_double cfg hc);
                      K = ddiv (d_arousal_variance predicted) S;
                      innov = dsub (measured_arousal_double hr (stress_index obs)) (d_arousal predicted);
                      m = dsqrt (ddiv (dmul innov innov) S)
                  in if dless m (Fin (outlier_threshold cfg))
                     then (predicted
                             \<lparr>d_arousal := dadd (d_arousal predicted) (dmul K innov),
                              d_arousal_variance := dmul (dsub (Fin 1) K) (d_arousal_variance predicted)\<rparr>,
                           innov, m)
                     else (predicted
                             \<lparr>d_arousal_variance := dadd (d_arousal_variance predicted) (Fin 0.01)\<rparr>,
                           Fin 0, m))
               else (predicted, Fin 0, Fin 0)))"

definition correct_valence_double :: "BeliefDouble \<Rightarrow> Observation \<Rightarrow> BeliefDouble" where
  "correct_valence_double corrected obs =
     (case facial_valence obs of
        None \<Rightarrow> corrected
      | Some fv \<Rightarrow>
          corrected\<lparr>d_valence := dadd (dmul (Fin 0.8) (d_valence corrected)) (dmul (Fin 0.2) (Fin fv))\<rparr>)"

definition correct_attention_double ::
  "BeliefDouble \<Rightarrow> BeliefDouble \<Rightarrow> Observation \<Rightarrow> real \<Rightarrow> BeliefDouble" where
  "correct_attention_double predicted corrected obs dt =
     (let isDistracted = (user_interaction obs = Some pause \<or> visibilty_state obs = hidden)
      in if isDistracted
         then corrected\<lparr>d_attention := dmul (d_attention predicted) (Fin 0.95)\<rparr>
         else corrected
                \<lparr>d_attention := dmin (Fin 1) (dadd (d_attention corrected) (dmul (Fin 0.15) (Fin dt)))\<rparr>)"

definition correct_double ::
  "AdaptiveStateEstimator \<Rightarrow> BeliefDouble \<Rightarrow> Observation \<Rightarrow> real \<Rightarrow> BeliefDouble" where
  "correct_double e predicted obs dt =
     (case correct_arousal_double (config e) predicted obs of
        (c1, currentInnovation, m) \<Rightarrow>
          (let c2 = correct_valence_double c1 obs;
               c3 = correct_attention_double predicted c2 obs dt
           in c3\<lparr>d_innovation := currentInnovation,
                 d_mahalanobis_distance := m,
                 d_arousal := clamp_double (d_arousal c3) (Fin 0) (Fin 1),
                 d_attention := clamp_double (d_attention c3) (Fin 0) (Fin 1),
                 d_rhythm_alignment := clamp_double (d_rhythm_alignment c3) (Fin 0) (Fin 1),
                 d_valence := clamp_double (d_valence c3) (Fin (- 1)) (Fin 1)\<rparr>))"

definition computePredictionError_double :: "AdaptiveStateEstimator \<Rightarrow> BeliefDouble \<Rightarrow> double" where
  "computePredictionError_double e st =
     (let da = dsub (d_arousal st) (Fin (target_arousal (target e)));
          dr = dsub (d_rhythm_alignment st) (Fin (target_rhythm_alignment (target e)));
          error_arousal = dmul da da;
          error_rhythm = dmul dr dr
      in dsqrt (dadd (dmul (Fin 0.5) error_arousal) (dmul (Fin 0.5) error_rhythm)))"

definition computeConfidence_double :: "BeliefDouble \<Rightarrow> Observation \<Rightarrow> double" where
  "computeConfidence_double st obs =
     (let certainty =
            dsub (Fin 1)
              (dmin (Fin 1) (ddiv (dadd (d_arousal_variance st) (d_attention_variance st)) (Fin 2)));
          sensor_quality = (case hr_confidence obs of Some c \<Rightarrow> c | None \<Rightarrow> 0.5)
      in clamp_double (dpow_half (dmul certainty (Fin sensor_quality))) (Fin 0) (Fin 1))"

text \<open>
  \<^verbatim>\<open>update\<close> over doubles: the belief the call returns (which is also the belief it
  stores).
\<close>

definition update_double :: "AdaptiveStateEstimator \<Rightarrow> Observation \<Rightarrow> real \<Rightarrow> BeliefDouble" where
  "update_double e obs dt =
     (let predicted = predict_double e dt;
          corrected = correct_double e predicted obs dt;
          corrected1 = corrected\<lparr>d_prediction_error := computePredictionError_double e corrected\<rparr>
      in corrected1\<lparr>d_confidence := computeConfidence_double corrected1 obs\<rparr>)"

text \<open>A double that is a number of the closed interval from \<open>lo\<close> to \<open>hi\<close>.\<close>

fun in_range_double :: "real \<Rightarrow> real \<Rightarrow> double \<Rightarrow> bool" where
  "in_range_double lo hi (Fin x) = (lo \<le> x \<and> x \<le> hi)"
| "in_range_double lo hi d = False"

section \<open>fft.worker.ts: the rPPG worker\<close>

text \<open>
  The worker's request and its two replies. A colour sample is \<^verbatim>\<open>{r, g, b, timestamp}\<close>;
  the fields carry the prefix \<open>rgb_\<close>, and those of \<^verbatim>\<open>ProcessingResponse\<close> the
  prefix \<open>res_\<close>, because a record field is a constant of the whole theory.
\<close>

record RGB =
  rgb_r :: real
  rgb_g :: real
  rgb_b :: real
  rgb_timestamp :: real

record ProcessingRequest =
  req_type :: string
  rgbData :: "RGB list"
  motionScore :: real
  sampleRate :: real

record HRVMetrics =
  rmssd :: real
  sdnn :: real
  stressIndex :: real

text \<open>
  The signal-to-noise ratio is the one number of the worker that a well-formed request
  can take out of the reals: \<^verbatim>\<open>maxPower / (noisePower - maxPower)\<close> is \<^verbatim>\<open>Infinity\<close>
  when a single bin holds all the power of the band. Its type keeps that value.
\<close>

datatype jsnumber = Num real | PosInfinity

record ProcessingResponse =
  res_heartRate :: real
  res_respirationRate :: real
  res_hrv :: HRVMetrics
  res_confidence :: real
  res_snr :: jsnumber

datatype WorkerMessage = vitals_result ProcessingResponse | error_response string

subsection \<open>Math utils\<close>

text \<open>
  On the empty list \<^verbatim>\<open>mean\<close> and \<^verbatim>\<open>stdDev\<close> are NaN in the program and 0 here. The
  worker reaches them on an empty list only in \<^verbatim>\<open>computePOS\<close>, where
  \<^verbatim>\<open>mean(...) || 1\<close> maps NaN and 0 alike to 1 and \<^verbatim>\<open>std2 > 0\<close> is false for
  NaN and for 0.
\<close>

definition mean :: "real list \<Rightarrow> real" where
  "mean data = sum_list data / real (length data)"

definition stdDev :: "real list \<Rightarrow> real" where
  "stdDev data =
     (let m = mean data;
          variance = sum_list (map (\<lambda>val. (val - m)\<^sup>2) data) / real (length data)
      in sqrt variance)"

definition hammingWindow :: "nat \<Rightarrow> real list" where
  "hammingWindow n = map (\<lambda>i. 0.54 - 0.46 * cos ((2 * pi * real i) / (real n - 1))) [0..<n]"

text \<open>\<^verbatim>\<open>x || 1\<close> on a number: 1 when \<open>x\<close> is 0 (or NaN), else \<open>x\<close>.\<close>

definition or_one :: "real \<Rightarrow> real" where
  "or_one x = (if x = 0 then 1 else x)"

text \<open>
  \<^verbatim>\<open>Array.prototype.slice(start, end)\<close>: a negative index counts from the end of the
  array, and both are clipped to the array.
\<close>

definition js_slice :: "'a list \<Rightarrow> int \<Rightarrow> int \<Rightarrow> 'a list" where
  "js_slice xs start end' =
     (let l = int (length xs);
          k = (if start < 0 then max (l + start) 0 else min start l);
          final = (if end' < 0 then max (l + end') 0 else min end' l)
      in take (nat (final - k)) (drop (nat k) xs))"

subsection \<open>Core algorithms\<close>

text \<open>
  \<^verbatim>\<open>computePOS\<close>: the body of its loop for the sample \<open>i\<close>, and the loop. The result is
  read back from a \<^verbatim>\<open>Float32Array\<close>; the rounding to single precision is not modelled.
  The class \<^verbatim>\<open>BandpassFilter\<close> is never instantiated and is left out.
\<close>

definition pos_sample :: "RGB list \<Rightarrow> int \<Rightarrow> nat \<Rightarrow> real" where
  "pos_sample rgb windowSize i =
     (let l = int (length rgb);
          start = max 0 (int i - windowSize);
          end' = min l (int i + windowSize);
          segment = js_slice rgb start end';
          meanR = or_one (mean (map rgb_r segment));
          meanG = or_one (mean (map rgb_g segment));
          meanB = or_one (mean (map rgb_b segment));
          cn_r = rgb_r (rgb ! i) / meanR;
          cn_g = rgb_g (rgb ! i) / meanG;
          cn_b = rgb_b (rgb ! i) / meanB;
          s1 = cn_g - cn_b;
          s2 = cn_g + cn_b - 2 * cn_r;
          seg_s1 = map (\<lambda>c. (rgb_g c / meanG) - (rgb_b c / meanB)) segment;
          seg_s2 = map (\<lambda>c. (rgb_g c / meanG) + (rgb_b c / meanB) - 2 * (rgb_r c / meanR)) segment;
          std1 = stdDev seg_s1;
          std2 = stdDev seg_s2;
          alpha_pos = (if std2 > 0 then std1 / std2 else 0)
      in s1 + alpha_pos * s2)"

definition computePOS :: "RGB list \<Rightarrow> real \<Rightarrow> real list" where
  "computePOS rgb fs = map (pos_sample rgb \<lfloor>1.6 * fs\<rfloor>) [0..<length rgb]"

text \<open>
  \<^verbatim>\<open>detectPeaks\<close>: the loop over \<open>i = 1, ..., length - 2\<close> carries the peaks found so
  far and \<^verbatim>\<open>lastPeakIndex\<close>.
\<close>

definition peak_step :: "real list \<Rightarrow> real \<Rightarrow> int \<Rightarrow> nat \<Rightarrow> nat list \<times> int \<Rightarrow> nat list \<times> int" where
  "peak_step signal threshold minDistance i st =
     (case st of
        (peaks, lastPeakIndex) \<Rightarrow>
          if signal ! i > threshold \<and>
             signal ! i > signal ! (i - 1) \<and>
             signal ! i > signal ! (i + 1) \<and>
             (int i - lastPeakIndex) > minDistance
          then (peaks @ [i], int i)
          else (peaks, lastPeakIndex))"

definition detectPeaks :: "real list \<Rightarrow> real \<Rightarrow> nat list" where
  "detectPeaks signal fs =
     (let minDistance = \<lfloor>0.3 * fs\<rfloor>;
          threshold = mean signal + stdDev signal * 0.5
      in fst (fold (peak_step signal threshold minDistance) [1..<length signal - 1] ([], - minDistance)))"

subsection \<open>The worker handler\<close>

text \<open>
  The handler in the order of the source. Step 2 smooths over \<open>i - 2, ..., i + 2\<close>, clipped
  to the array, and removes the mean (the local \<^verbatim>\<open>windowSize\<close> of the handler is never
  read).
\<close>

definition smoothed_signal :: "real list \<Rightarrow> real list" where
  "smoothed_signal arr =
     map (\<lambda>i. let lo = i - 2;
                  hi = min (length arr - 1) (i + 2);
                  win = take (hi + 1 - lo) (drop lo arr)
              in sum_list win / real (length win))
       [0..<length arr]"

definition acSignal :: "RGB list \<Rightarrow> real \<Rightarrow> real list" where
  "acSignal rgbData' sampleRate' =
     (let bvpSignal = computePOS rgbData' sampleRate';
          smoothed = smoothed_signal bvpSignal;
          meanVal = mean smoothed
      in map (\<lambda>v. v - meanVal) smoothed)"

text \<open>
  Step 3: the windowed signal, zero-padded to \<^verbatim>\<open>nFFT\<close> (again a \<^verbatim>\<open>Float32Array\<close>,
  rounding not modelled), the power of one bin, and the scan of the heart-rate band,
  which carries \<^verbatim>\<open>maxPower\<close>, \<^verbatim>\<open>peakFreq\<close> and \<^verbatim>\<open>noisePower\<close>. Step 4 scans the
  respiration band in the same way, without the noise sum.
\<close>

definition nFFT :: nat where
  "nFFT = 512"

definition fftSignal :: "real list \<Rightarrow> real list" where
  "fftSignal ac =
     (let w = hammingWindow (min (length ac) nFFT)
      in map (\<lambda>i. if i < length w then ac ! i * w ! i else 0) [0..<nFFT])"

definition binPower :: "real list \<Rightarrow> nat \<Rightarrow> int \<Rightarrow> real" where
  "binPower fft wlen bin =
     (let k = (2 * pi * real_of_int bin) / real nFFT;
          re = sum_list (map (\<lambda>n. fft ! n * cos (k * real n)) [0..<wlen]);
          im = - sum_list (map (\<lambda>n. fft ! n * sin (k * real n)) [0..<wlen])
      in re * re + im * im)"

definition hr_step :: "real list \<Rightarrow> nat \<Rightarrow> real \<Rightarrow> int \<Rightarrow> real \<times> real \<times> real \<Rightarrow> real \<times> real \<times> real" where
  "hr_step fft wlen fs bin st =
     (case st of
        (maxPower, peakFreq, noisePower) \<Rightarrow>
          (let power = binPower fft wlen bin
           in if power > maxPower
              then (power, real_of_int bin * fs / real nFFT, noisePower + power)
              else (maxPower, peakFreq, noisePower + power)))"

definition resp_step :: "real list \<Rightarrow> nat \<Rightarrow> real \<Rightarrow> int \<Rightarrow> real \<times> real \<Rightarrow> real \<times> real" where
  "resp_step fft wlen fs bin st =
     (case st of
        (maxRespPower, respFreq) \<Rightarrow>
          (let power = binPower fft wlen bin
           in if power > maxRespPower
              then (power, real_of_int bin * fs / real nFFT)
              else (maxRespPower, respFreq)))"

definition snr_of :: "real \<Rightarrow> real \<Rightarrow> jsnumber" where
  "snr_of maxPower noisePower =
     (if noisePower > 0
      then (if noisePower - maxPower = 0 then PosInfinity else Num (maxPower / (noisePower - maxPower)))
      else Num 0)"

text \<open>
  Step 5: the HRV section, \<^verbatim>\<open>(rmssd, sdnn, stressIndex)\<close> as the locals stand after the
  \<^verbatim>\<open>if (peaks.length > 2)\<close>; all three are initialised to 0.
\<close>

definition hrv_section :: "nat list \<Rightarrow> real \<Rightarrow> real \<times> real \<times> real" where
  "hrv_section peaks fs =
     (if length peaks > 2
      then
        (let intervalsMs =
               map (\<lambda>i. (real (peaks ! i) - real (peaks ! (i - 1))) * 1000 / fs) [1..<length peaks];
             sqDiffSum =
               sum_list (map (\<lambda>i. (intervalsMs ! i - intervalsMs ! (i - 1))\<^sup>2) [1..<length intervalsMs]);
             rmssd' = sqrt (sqDiffSum / (real (length intervalsMs) - 1));
             sdnn' = stdDev intervalsMs;
             mode = mean intervalsMs;
             range = Max (set intervalsMs) - Min (set intervalsMs);
             stressIndex' = 1000 / (2 * mode * or_one range)
         in (rmssd', sdnn', stressIndex'))
      else (0, 0, 0))"

text \<open>Step 6: \<^verbatim>\<open>Math.min(1, snr / 10)\<close> is 1 for an infinite \<^verbatim>\<open>snr\<close>.\<close>

definition snrScore_of :: "jsnumber \<Rightarrow> real" where
  "snrScore_of snr' = (case snr' of Num x \<Rightarrow> min 1 (x / 10) | PosInfinity \<Rightarrow> 1)"

text \<open>
  The body of the \<^verbatim>\<open>try\<close> block after the guard: the message the handler posts when
  nothing is thrown.
\<close>

definition computeVitals :: "ProcessingRequest \<Rightarrow> ProcessingResponse" where
  "computeVitals data =
     (let fs = sampleRate data;
          ac = acSignal (rgbData data) fs;
          fft = fftSignal ac;
          wlen = min (length ac) nFFT;
          minBin = \<lfloor>0.66 * real nFFT / fs\<rfloor>;
          maxBin = \<lfloor>3.66 * real nFFT / fs\<rfloor>;
          scan = fold (hr_step fft wlen fs) [minBin..maxBin] (0, 0, 0);
          maxPower = fst scan;
          peakFreq = fst (snd scan);
          noisePower = snd (snd scan);
          snr' = snr_of maxPower noisePower;
          hr = peakFreq * 60;
          respMinBin = \<lfloor>0.1 * real nFFT / fs\<rfloor>;
          respMaxBin = \<lfloor>0.5 * real nFFT / fs\<rfloor>;
          respFreq = snd (fold (resp_step fft wlen fs) [respMinBin..respMaxBin] (0, 0));
          rr = respFreq * 60;
          peaks = detectPeaks ac fs;
          hrv' = hrv_section peaks fs;
          motionPenalty = max 0 (1 - motionScore data * 2);
          snrScore = snrScore_of snr';
          confidence' = motionPenalty * snrScore
      in \<lparr>res_heartRate = hr,
          res_respirationRate = rr,
          res_hrv = \<lparr>rmssd = fst hrv', sdnn = fst (snd hrv'), stressIndex = snd (snd hrv') * 10000\<rparr>,
          res_confidence = confidence',
          res_snr = snr'\<rparr>)"

text \<open>
  \<^verbatim>\<open>self.onmessage\<close>: the message posted, if any. The guard throws
  \<^verbatim>\<open>Error("Insufficient data")\<close>, which the \<^verbatim>\<open>catch\<close> posts as an error reply;
  no arithmetic of the body throws. With \<^verbatim>\<open>sampleRate = 0\<close> the band limits
  \<^verbatim>\<open>Math.floor(0.66 * nFFT / 0)\<close> and \<^verbatim>\<open>Math.floor(3.66 * nFFT / 0)\<close> are both
  \<^verbatim>\<open>Infinity\<close> and the scan \<^verbatim>\<open>for (bin = minBin; bin <= maxBin; bin++)\<close> never
  ends: nothing is posted, which is \<open>None\<close>. For every other rate the band holds
  finitely many bins and the scan ends (in the program a rate so small that the bin
  numbers pass \<open>2\<^sup>5\<^sup>3\<close> stalls the counter as well; that is rounding, outside the
  model).
\<close>

definition onmessage :: "ProcessingRequest \<Rightarrow> WorkerMessage option" where
  "onmessage data =
     (if req_type data \<noteq> ''process_signal'' \<or> length (rgbData data) < 64
      then Some (error_response ''Error: Insufficient data'')
      else if sampleRate data = 0 then None
      else Some (vitals_result (computeVitals data)))"

section \<open>CameraVitalsEngine: the signal extraction pipeline\<close>

text \<open>
  \<^verbatim>\<open>VitalSigns\<close> and \<^verbatim>\<open>AffectiveState\<close> of types.ts. The confidence of
  \<^verbatim>\<open>VitalSigns\<close> is \<open>vitals_confidence\<close> and the two fields of \<^verbatim>\<open>AffectiveState\<close>
  are \<open>aff_valence\<close> and \<open>aff_arousal\<close>: the plain names are fields of
  \<^verbatim>\<open>BeliefState\<close>.
\<close>

datatype SignalQuality = excellent | good | fair | poor

datatype mood = anxious | calm | focused | neutral | distracted

record AffectiveState =
  aff_valence :: real
  aff_arousal :: real
  dominance :: "real option"
  mood_label :: mood

record VitalSigns =
  heartRate :: real
  respirationRate :: "real option"
  hrv :: "HRVMetrics option"
  affective :: "AffectiveState option"
  vitals_confidence :: real
  signalQuality :: SignalQuality
  snr :: jsnumber
  motionLevel :: real

record Keypoint =
  kp_x :: real
  kp_y :: real

record ROI =
  roi_x :: real
  roi_y :: real
  roi_width :: real
  roi_height :: real

text \<open>
  The engine's fields. \<open>detector\<close> and \<open>worker\<close> say whether \<^verbatim>\<open>init\<close> has set
  them (they are \<^verbatim>\<open>null\<close> before); the canvas is not state of the computation.
\<close>

record CameraVitalsEngine =
  detector :: bool
  worker :: bool
  rgbBuffer :: "RGB list"
  isProcessing :: bool
  valenceSmoother :: real
  arousalSmoother :: real
  lastKnownVitals :: VitalSigns
  lastPos :: "Keypoint option"

text \<open>
  What one call of \<^verbatim>\<open>processFrame\<close> reads from outside the engine: the clock, the
  faces the landmark detector returns (each a keypoint array, read at fixed indices), the
  size of the video, and the mean colour the canvas gives for a region of positive size.
\<close>

record Frame =
  now :: real
  faces :: "(nat \<Rightarrow> Keypoint) list"
  videoWidth :: real
  videoHeight :: real
  roiColor :: "ROI \<Rightarrow> real \<times> real \<times> real"

definition BUFFER_DURATION :: nat where
  "BUFFER_DURATION = 6"

definition SAMPLE_RATE :: nat where
  "SAMPLE_RATE = 30"

definition getDefaultVitals :: VitalSigns where
  "getDefaultVitals =
     \<lparr>heartRate = 0, respirationRate = None, hrv = None, affective = None,
      vitals_confidence = 0, signalQuality = poor, snr = Num 0, motionLevel = 0\<rparr>"

definition decayVitals :: "CameraVitalsEngine \<Rightarrow> VitalSigns \<times> CameraVitalsEngine" where
  "decayVitals e =
     (let v0 = lastKnownVitals e;
          v1 = v0\<lparr>vitals_confidence := vitals_confidence v0 * 0.95\<rparr>;
          v2 = v1\<lparr>signalQuality := (if vitals_confidence v1 > 0.4 then fair else poor)\<rparr>
      in (v2, e\<lparr>lastKnownVitals := v2\<rparr>))"

definition mapWorkerResponse :: "ProcessingResponse \<Rightarrow> VitalSigns" where
  "mapWorkerResponse res =
     \<lparr>heartRate = res_heartRate res,
      respirationRate = Some (res_respirationRate res),
      hrv = Some (res_hrv res),
      affective = None,
      vitals_confidence = res_confidence res,
      signalQuality =
        (if res_confidence res > 0.7 then excellent
         else if res_confidence res > 0.4 then good else poor),
      snr = res_snr res,
      motionLevel = 0\<rparr>"

text \<open>
  \<^verbatim>\<open>triggerWorker\<close> posts the request to the worker and resolves with its reply: the
  mapped vitals for a \<^verbatim>\<open>vitals_result\<close>, \<^verbatim>\<open>null\<close> for an error. The outer option is
  \<open>None\<close> when the worker never replies, so that the promise never resolves. The engine
  is returned with \<^verbatim>\<open>isProcessing\<close> as the reply handler leaves it.
\<close>

definition triggerWorker ::
  "CameraVitalsEngine \<Rightarrow> real \<Rightarrow> (VitalSigns option \<times> CameraVitalsEngine) option" where
  "triggerWorker e motion =
     (if \<not> worker e then Some (None, e)
      else
        (let e1 = e\<lparr>isProcessing := True\<rparr>;
             req = \<lparr>req_type = ''process_signal'', rgbData = rgbBuffer e1,
                     motionScore = motion, sampleRate = real SAMPLE_RATE\<rparr>
         in case onmessage req of
              None \<Rightarrow> None
            | Some (vitals_result res) \<Rightarrow> Some (Some (mapWorkerResponse res), e1\<lparr>isProcessing := False\<rparr>)
            | Some (error_response msg) \<Rightarrow> Some (None, e1\<lparr>isProcessing := False\<rparr>)))"

subsection \<open>Geometric features and regions of interest\<close>

text \<open>
  \<^verbatim>\<open>dist\<close>, the local helper of \<^verbatim>\<open>calculateGeometricValence\<close>
  (\<^verbatim>\<open>Math.hypot\<close> of the coordinate differences), also used for the motion score.
\<close>

definition keypoint_dist :: "Keypoint \<Rightarrow> Keypoint \<Rightarrow> real" where
  "keypoint_dist a c = sqrt ((kp_x a - kp_x c)\<^sup>2 + (kp_y a - kp_y c)\<^sup>2)"

definition calculateGeometricValence :: "(nat \<Rightarrow> Keypoint) \<Rightarrow> real" where
  "calculateGeometricValence pts =
     (let mouthWidth = keypoint_dist (pts 61) (pts 291);
          faceWidth = keypoint_dist (pts 234) (pts 454);
          smileRatio = mouthWidth / faceWidth;
          smileScore = (smileRatio - 0.35) * 5.0;
          browDist = keypoint_dist (pts 107) (pts 336) / faceWidth;
          furrowScore = (0.25 - browDist) * 8.0
      in max (- 1) (min 1 (smileScore - max 0 furrowScore)))"

definition classifyMood :: "real \<Rightarrow> real \<Rightarrow> mood" where
  "classifyMood val aro =
     (if aro > 0.7 then anxious
      else if val > 0.3 \<and> aro < 0.5 then calm
      else if val > 0.2 \<and> aro > 0.4 \<and> aro < 0.7 then focused
      else if aro < 0.2 then distracted
      else neutral)"

definition getForeheadROI :: "(nat \<Rightarrow> Keypoint) \<Rightarrow> real \<Rightarrow> real \<Rightarrow> ROI" where
  "getForeheadROI pts w h =
     (let xs = map (\<lambda>x. max 0 (min w x)) [kp_x (pts 109), kp_x (pts 338), kp_x (pts 297), kp_x (pts 332)];
          ys = map (\<lambda>y. max 0 (min h y)) [kp_y (pts 109), kp_y (pts 338), kp_y (pts 297)]
      in \<lparr>roi_x = Min (set xs), roi_y = Min (set ys),
          roi_width = Max (set xs) - Min (set xs), roi_height = Max (set ys) - Min (set ys)\<rparr>)"

definition getCheekROI :: "(nat \<Rightarrow> Keypoint) \<Rightarrow> real \<Rightarrow> real \<Rightarrow> bool \<Rightarrow> ROI" where
  "getCheekROI pts w h isLeft =
     (let indices = (if isLeft then [123, 50, 205] else [352, 280, 425]);
          regionPts = map pts indices;
          xs = map kp_x regionPts;
          ys = map kp_y regionPts
      in \<lparr>roi_x = Min (set xs), roi_y = Min (set ys),
          roi_width = Max (set xs) - Min (set xs), roi_height = Max (set ys) - Min (set ys)\<rparr>)"

definition extractROIColor :: "Frame \<Rightarrow> ROI \<Rightarrow> real \<times> real \<times> real" where
  "extractROIColor video roi =
     (if roi_width roi \<le> 0 \<or> roi_height roi \<le> 0 then (0, 0, 0) else roiColor video roi)"

definition calculateMotion :: "CameraVitalsEngine \<Rightarrow> (nat \<Rightarrow> Keypoint) \<Rightarrow> real \<times> CameraVitalsEngine" where
  "calculateMotion e pts =
     (let nose = pts 1
      in case lastPos e of
           None \<Rightarrow> (0, e\<lparr>lastPos := Some nose\<rparr>)
         | Some lp \<Rightarrow> (min 1 (keypoint_dist nose lp / 10), e\<lparr>lastPos := Some nose\<rparr>))"

subsection \<open>processFrame\<close>

text \<open>
  The branch of \<^verbatim>\<open>processFrame\<close> for a detected face, in the order of the source:
  fused colour into the buffer, valence, motion, the worker when the buffer holds more
  than 64 samples and no job is in flight, then the fusion into the returned vitals.
\<close>

definition processFace ::
  "CameraVitalsEngine \<Rightarrow> Frame \<Rightarrow> (nat \<Rightarrow> Keypoint) \<Rightarrow> (VitalSigns \<times> CameraVitalsEngine) option" where
  "processFace e video keypoints =
     (let forehead = extractROIColor video (getForeheadROI keypoints (videoWidth video) (videoHeight video));
          leftCheek = extractROIColor video (getCheekROI keypoints (videoWidth video) (videoHeight video) True);
          rightCheek = extractROIColor video (getCheekROI keypoints (videoWidth video) (videoHeight video) False);
          fusedColor =
            \<lparr>rgb_r = (fst forehead + fst leftCheek + fst rightCheek) / 3,
             rgb_g = (fst (snd forehead) + fst (snd leftCheek) + fst (snd rightCheek)) / 3,
             rgb_b = (snd (snd forehead) + snd (snd leftCheek) + snd (snd rightCheek)) / 3,
             rgb_timestamp = now video\<rparr>;
          pushed = rgbBuffer e @ [fusedColor];
          maxSamples = BUFFER_DURATION * SAMPLE_RATE;
          e1 = e\<lparr>rgbBuffer := (if length pushed > maxSamples then tl pushed else pushed)\<rparr>;
          valence' = calculateGeometricValence keypoints;
          e2 = e1\<lparr>valenceSmoother := valenceSmoother e1 * 0.9 + valence' * 0.1\<rparr>;
          moved = calculateMotion e2 keypoints;
          motion = fst moved;
          e3 = snd moved;
          triggered =
            (if length (rgbBuffer e3) > 64 \<and> \<not> isProcessing e3
             then triggerWorker e3 motion
             else Some (None, e3))
      in case triggered of
           None \<Rightarrow> None
         | Some (workerResult, e4) \<Rightarrow>
             (let currentVitals = (case workerResult of Some v \<Rightarrow> v | None \<Rightarrow> lastKnownVitals e4);
                  rawStress = (case hrv currentVitals of Some m \<Rightarrow> stressIndex m | None \<Rightarrow> 0);
                  arousal' = min 1 (rawStress / 500);
                  e5 = e4\<lparr>arousalSmoother := arousalSmoother e4 * 0.95 + arousal' * 0.05\<rparr>;
                  affectiveState =
                    \<lparr>aff_valence = valenceSmoother e5, aff_arousal = arousalSmoother e5,
                     dominance = None,
                     mood_label = classifyMood (valenceSmoother e5) (arousalSmoother e5)\<rparr>;
                  finalResult = currentVitals\<lparr>affective := Some affectiveState, motionLevel := motion\<rparr>
              in Some (finalResult, e5\<lparr>lastKnownVitals := finalResult\<rparr>)))"

text \<open>
  \<^verbatim>\<open>processFrame\<close>: the vitals returned and the engine after the call; \<open>None\<close> when
  the call never returns.
\<close>

definition processFrame ::
  "CameraVitalsEngine \<Rightarrow> Frame \<Rightarrow> (VitalSigns \<times> CameraVitalsEngine) option" where
  "processFrame e video =
     (if \<not> detector e \<or> \<not> worker e then Some (getDefaultVitals, e)
      else
        (case faces video of
           [] \<Rightarrow> Some (decayVitals e)
         | face # rest \<Rightarrow> processFace e video face))"

section \<open>SafetyConfig.ts\<close>

text \<open>The constants of \<^verbatim>\<open>SafetyConfig\<close>, one field for each, group by group.\<close>

record SafetyConfigType =
  controlHz :: real
  maxFrameDtSec :: real
  maxControlStepsPerFrame :: real
  hrHardMin :: real
  hrHardMax :: real
  hrSoftMin :: real
  hrSoftMax :: real
  tempo_min :: real
  tempo_max :: real
  upStep :: real
  downStep :: real
  lowAlign :: real
  highAlign :: real
  deadband :: real
  minSessionSecBeforeEmergency :: real
  retentionMs :: real

definition SafetyConfig :: SafetyConfigType where
  "SafetyConfig =
     \<lparr>controlHz = 10, maxFrameDtSec = 0.1, maxControlStepsPerFrame = 3,
      hrHardMin = 30, hrHardMax = 220, hrSoftMin = 40, hrSoftMax = 200,
      tempo_min = 1.0, tempo_max = 1.3, upStep = 0.002, downStep = 0.001,
      lowAlign = 0.35, highAlign = 0.8, deadband = 0.01,
      minSessionSecBeforeEmergency = 10,
      retentionMs = 7 * 24 * 60 * 60 * 1000\<rparr>"

section \<open>The kernel\<close>

text \<open>
  The file of the kernel (\<^verbatim>\<open>services/PureZenBKernel\<close>) is not among the sources; its
  test and its configuration are. The definitions of this section follow the
  specification's description of the kernel (sections 3, 4.1 and 4.2), and only as far as
  the emergency halt needs: the status, the session clock, the belief, the event log and
  the persistence writes. The phase progression of \<^verbatim>\<open>tick\<close> and the tempo rule of the
  safety guard are not modelled.
\<close>

text \<open>
  Modelled from the spec: the status of the runtime state, missing with the kernel's file:
  one of IDLE, RUNNING, PAUSED and SAFETY_LOCK.
\<close>

datatype Status = IDLE | RUNNING | PAUSED | SAFETY_LOCK

text \<open>
  Modelled from the spec: \<^verbatim>\<open>RuntimeState\<close>, missing with the kernel's file. The fields
  are those of section 3 of the specification; \<open>sessionDuration\<close> is the elapsed session
  time in seconds that the safety guard compares with the configured minimum.
\<close>

record RuntimeState =
  status :: Status
  phase :: BreathPhase
  phaseElapsed :: real
  phaseDuration :: real
  cycleCount :: nat
  tempoScale :: real
  pattern :: "BreathPattern option"
  kernel_belief :: BeliefState
  safetyRegistry :: "string \<Rightarrow> SafetyProfile option"
  lastObservation :: "Observation option"
  sessionDuration :: real

text \<open>
  Modelled from the spec: the kernel object, missing with the kernel's file. It holds the
  injected configuration, the runtime state, the append-only event log, and the events
  handed to the persistence collaborator's \<^verbatim>\<open>writeEvent\<close>, in order. \<open>whitelist\<close> is
  the set of events that \<^verbatim>\<open>dispatch\<close> persists.
\<close>

record Kernel =
  kernel_config :: SafetyConfigType
  whitelist :: "KernelEvent \<Rightarrow> bool"
  state :: RuntimeState
  logBuffer :: "KernelEvent list"
  written :: "KernelEvent list"

text \<open>
  Modelled from the spec: the write whitelist of \<^verbatim>\<open>dispatch\<close>, missing with the kernel's
  file: START_SESSION, HALT, SAFETY_INTERDICTION, CYCLE_COMPLETE, and ADJUST_TEMPO of AI
  origin (the bridge marks its reason with the prefix \<^verbatim>\<open>AI\<close>).
\<close>

fun default_whitelist :: "KernelEvent \<Rightarrow> bool" where
  "default_whitelist (START_SESSION ts) = True"
| "default_whitelist (HALT reason ts) = True"
| "default_whitelist (SAFETY_INTERDICTION risk action ts) = True"
| "default_whitelist (CYCLE_COMPLETE n ts) = True"
| "default_whitelist (ADJUST_TEMPO scale reason ts) = (take 2 reason = ''AI'')"
| "default_whitelist ev = False"

text \<open>
  Modelled from the spec: the initial state of a kernel, missing with the kernel's file:
  IDLE, phase inhale, no cycle, no pattern (as the kernel's test expects of a new kernel),
  tempo scale 1 and an empty registry.
\<close>

definition initial_state :: RuntimeState where
  "initial_state =
     \<lparr>status = IDLE, phase = inhale, phaseElapsed = 0, phaseDuration = 0, cycleCount = 0,
      tempoScale = 1, pattern = None, kernel_belief = initial_belief,
      safetyRegistry = (\<lambda>k. None), lastObservation = None, sessionDuration = 0\<rparr>"

text \<open>
  Modelled from the spec: the kernel's constructor, missing with the kernel's file: the
  injected configuration, the whitelist above, the initial state and nothing logged or
  written yet.
\<close>

definition new_kernel :: "SafetyConfigType \<Rightarrow> Kernel" where
  "new_kernel cfg =
     \<lparr>kernel_config = cfg, whitelist = default_whitelist, state = initial_state,
      logBuffer = [], written = []\<rparr>"

text \<open>
  Modelled from the spec: the logging step of \<^verbatim>\<open>dispatch\<close>, missing with the kernel's
  file: the event is appended to the log and, when it is whitelisted, written.
\<close>

definition log_event :: "Kernel \<Rightarrow> KernelEvent \<Rightarrow> Kernel" where
  "log_event k ev =
     k\<lparr>logBuffer := logBuffer k @ [ev],
       written := (if whitelist k ev then written k @ [ev] else written k)\<rparr>"

text \<open>
  Modelled from the spec: the first rule of the safety guard (section 4.2), missing with
  the kernel's file: a prediction error above 0.95 once the elapsed session time has
  reached the configured minimum yields
  \<^verbatim>\<open>SAFETY_INTERDICTION{action: 'EMERGENCY_HALT', riskLevel: prediction_error}\<close>; below
  the minimum session time nothing is emitted.
\<close>

definition safetyGuard :: "SafetyConfigType \<Rightarrow> RuntimeState \<Rightarrow> BeliefState \<Rightarrow> real \<Rightarrow> KernelEvent option" where
  "safetyGuard cfg s b ts =
     (if prediction_error b > 0.95 \<and> sessionDuration s \<ge> minSessionSecBeforeEmergency cfg
      then Some (SAFETY_INTERDICTION (prediction_error b) ''EMERGENCY_HALT'' ts)
      else None)"

text \<open>
  Modelled from the spec: \<^verbatim>\<open>applyBeliefUpdate\<close>, missing with the kernel's file. The
  guard runs before the belief is committed; an emergency halt forces the status
  SAFETY_LOCK, is logged, and is written without asking the whitelist.
\<close>

definition applyBeliefUpdate :: "Kernel \<Rightarrow> BeliefState \<Rightarrow> real \<Rightarrow> Kernel" where
  "applyBeliefUpdate k b ts =
     (case safetyGuard (kernel_config k) (state k) b ts of
        None \<Rightarrow> k\<lparr>state := (state k)\<lparr>kernel_belief := b\<rparr>\<rparr>
      | Some halt \<Rightarrow>
          k\<lparr>state := (state k)\<lparr>kernel_belief := b, status := SAFETY_LOCK\<rparr>,
            logBuffer := logBuffer k @ [halt],
            written := written k @ [halt]\<rparr>)"

text \<open>
  Modelled from the spec: \<^verbatim>\<open>dispatch\<close>, missing with the kernel's file. LOAD_PROTOCOL
  fails closed on a pattern whose profile is locked beyond the event's time and logs
  PATTERN_LOCKED instead; START_SESSION in SAFETY_LOCK is rejected and logs REJECT_START,
  otherwise it starts the session and its clock; a dispatched SAFETY_INTERDICTION locks
  the kernel; pause and resume switch between RUNNING and PAUSED; BELIEF_UPDATE goes
  through the safety guard. The specification gives no risk level for the two rejections;
  they carry 1. Every other event is logged and leaves the state as it is.
\<close>

definition dispatch :: "Kernel \<Rightarrow> KernelEvent \<Rightarrow> Kernel" where
  "dispatch k ev =
     (case ev of
        LOAD_PROTOCOL pid ts \<Rightarrow>
          (case safetyRegistry (state k) pid of
             Some profile \<Rightarrow>
               if safety_lock_until profile > ts
               then log_event k (SAFETY_INTERDICTION 1 ''PATTERN_LOCKED'' ts)
               else log_event (k\<lparr>state := (state k)\<lparr>pattern := BREATHING_PATTERNS pid\<rparr>\<rparr>) ev
           | None \<Rightarrow> log_event (k\<lparr>state := (state k)\<lparr>pattern := BREATHING_PATTERNS pid\<rparr>\<rparr>) ev)
      | START_SESSION ts \<Rightarrow>
          if status (state k) = SAFETY_LOCK
          then log_event k (SAFETY_INTERDICTION 1 ''REJECT_START'' ts)
          else log_event (k\<lparr>state := (state k)\<lparr>status := RUNNING, sessionDuration := 0\<rparr>\<rparr>) ev
      | SAFETY_INTERDICTION risk action ts \<Rightarrow>
          log_event (k\<lparr>state := (state k)\<lparr>status := SAFETY_LOCK\<rparr>\<rparr>) ev
      | INTERRUPTION kind ts \<Rightarrow>
          if status (state k) = RUNNING
          then log_event (k\<lparr>state := (state k)\<lparr>status := PAUSED\<rparr>\<rparr>) ev
          else log_event k ev
      | RESUME ts \<Rightarrow>
          if status (state k) = PAUSED
          then log_event (k\<lparr>state := (state k)\<lparr>status := RUNNING\<rparr>\<rparr>) ev
          else log_event k ev
      | BELIEF_UPDATE b ts \<Rightarrow> applyBeliefUpdate (log_event k ev) b ts
      | _ \<Rightarrow> log_event k ev)"

text \<open>
  Modelled from the spec: the session clock of \<^verbatim>\<open>tick\<close>, missing with the kernel's
  file. While the session runs, a tick of \<open>dt\<close> seconds adds \<open>dt\<close> to the elapsed session
  time and records the observation (the kernel's test lets 15 s pass with
  \<^verbatim>\<open>kernel.tick(15, ...)\<close>); the phase progression of the specification's
  \<^verbatim>\<open>tick\<close> is left out.
\<close>

definition tick :: "Kernel \<Rightarrow> real \<Rightarrow> Observation \<Rightarrow> Kernel" where
  "tick k dt obs =
     (if status (state k) = RUNNING
      then k\<lparr>state := (state k)\<lparr>sessionDuration := sessionDuration (state k) + dt,
                                 lastObservation := Some obs\<rparr>\<rparr>
      else k)"

section \<open>Concrete estimators and observations\<close>

text \<open>
  Inputs at which the theorems below are evaluated: an observation with no optional
  field, and variants of it; the estimator \<^verbatim>\<open>new AdaptiveStateEstimator()\<close> is
  \<open>constructor no_config\<close>, and \<open>est_threshold1\<close> is
  \<^verbatim>\<open>new AdaptiveStateEstimator({ r_base: 0.05, outlier_threshold: 1 })\<close>.
\<close>

definition obs_base :: Observation where
  "obs_base = \<lparr>timestamp = 0, delta_time = 0, user_interaction = None, visibilty_state = visible,
     heart_rate = None, hr_confidence = None, respiration_rate = None, stress_index = None,
     facial_valence = None\<rparr>"

definition obs_low_conf :: Observation where
  "obs_low_conf = obs_base\<lparr>heart_rate := Some 120, hr_confidence := Some 0.3\<rparr>"

definition obs_hr120 :: Observation where
  "obs_hr120 = obs_base\<lparr>heart_rate := Some 120, hr_confidence := Some 1\<rparr>"

definition obs_conf1 :: Observation where
  "obs_conf1 = obs_base\<lparr>hr_confidence := Some 1\<rparr>"


definition est_threshold1 :: AdaptiveStateEstimator where
  "est_threshold1 = constructor (no_config\<lparr>arg_r_base := Some 0.05, arg_outlier_threshold := Some 1\<rparr>)"

section \<open>Concrete requests, engines and kernels\<close>

text \<open>
  A worker request of \<open>n\<close> samples of one constant colour at 30 samples per second; an
  engine after \<^verbatim>\<open>init\<close> whose last-known vitals are given, and a frame in which the
  detector finds no face; the belief the kernel's test injects, the kernel after
  LOAD_PROTOCOL and START_SESSION, and the same kernel after a tick of 15 seconds.
\<close>

definition white :: RGB where
  "white = \<lparr>rgb_r = 1, rgb_g = 1, rgb_b = 1, rgb_timestamp = 0\<rparr>"

definition request_of :: "nat \<Rightarrow> ProcessingRequest" where
  "request_of n =
     \<lparr>req_type = ''process_signal'', rgbData = replicate n white, motionScore = 0, sampleRate = 30\<rparr>"

definition vitals80 :: VitalSigns where
  "vitals80 =
     \<lparr>heartRate = 72, respirationRate = Some 15,
      hrv = Some \<lparr>rmssd = 40, sdnn = 50, stressIndex = 120\<rparr>, affective = None,
      vitals_confidence = 0.8, signalQuality = excellent, snr = Num 12, motionLevel = 0.1\<rparr>"

definition engine_with :: "VitalSigns \<Rightarrow> CameraVitalsEngine" where
  "engine_with v =
     \<lparr>detector = True, worker = True, rgbBuffer = [], isProcessing = False,
      valenceSmoother = 0, arousalSmoother = 0, lastKnownVitals = v, lastPos = None\<rparr>"

definition no_face_frame :: Frame where
  "no_face_frame =
     \<lparr>now = 0, faces = [], videoWidth = 640, videoHeight = 480, roiColor = (\<lambda>roi. (0, 0, 0))\<rparr>"

definition danger_belief :: BeliefState where
  "danger_belief =
     \<lparr>arousal = 1.0, attention = 0.0, rhythm_alignment = 0.0, valence = - 0.8,
      arousal_variance = 0, attention_variance = 0, rhythm_variance = 0,
      prediction_error = 0.99, innovation = 1.0, mahalanobis_distance = 10.0,
      confidence = 0\<rparr>"

definition kernel_started :: Kernel where
  "kernel_started =
     dispatch (dispatch (new_kernel SafetyConfig) (LOAD_PROTOCOL ''4-7-8'' 0)) (START_SESSION 0)"

definition kernel_after_15s :: Kernel where
  "kernel_after_15s = tick kernel_started 15 obs_base"

section \<open>Properties of the estimator\<close>

subsection \<open>Auxiliary facts\<close>

lemma clamp_range: "lo \<le> hi \<Longrightarrow> lo \<le> clamp v lo hi \<and> clamp v lo hi \<le> hi"
  by (simp add: clamp_def)

lemma clamp_id: "lo \<le> v \<Longrightarrow> v \<le> hi \<Longrightarrow> clamp v lo hi = v"
  by (simp add: clamp_def)

lemma predict_arousal_range: "0 \<le> arousal (predict e dt) \<and> arousal (predict e dt) \<le> 1"
  by (simp add: predict_def Let_def clamp_def)

lemma predict_fields:
  "arousal (predict e dt) =
     clamp (arousal (belief e) + (1 - exp (- dt / 15)) * (target_arousal (target e) - arousal (belief e))) 0 1"
  "arousal_variance (predict e dt) = arousal_variance (belief e) + q_base (config e) * dt"
  "attention_variance (predict e dt) = attention_variance (belief e) + q_base (config e) * dt"
  "rhythm_variance (predict e dt) = rhythm_variance (belief e) + q_base (config e) * dt"
  by (simp_all add: predict_def Let_def TAU_AROUSAL_def)

lemma correct_arousal_cases:
  "correct_arousal cfg p obs = (c1, ci, m) \<Longrightarrow>
     attention c1 = attention p \<and> rhythm_alignment c1 = rhythm_alignment p \<and> valence c1 = valence p
     \<and> attention_variance c1 = attention_variance p \<and> rhythm_variance c1 = rhythm_variance p"
  by (auto simp: correct_arousal_def Let_def split: option.splits if_splits)

lemma update_fst_fields:
  "arousal (fst (update e obs dt)) = arousal (correct e (predict e dt) obs dt)"
  "attention (fst (update e obs dt)) = attention (correct e (predict e dt) obs dt)"
  "rhythm_alignment (fst (update e obs dt)) = rhythm_alignment (correct e (predict e dt) obs dt)"
  "valence (fst (update e obs dt)) = valence (correct e (predict e dt) obs dt)"
  "arousal_variance (fst (update e obs dt)) = arousal_variance (correct e (predict e dt) obs dt)"
  "attention_variance (fst (update e obs dt)) = attention_variance (correct e (predict e dt) obs dt)"
  "rhythm_variance (fst (update e obs dt)) = rhythm_variance (correct e (predict e dt) obs dt)"
  by (simp_all add: update_def Let_def)

lemma update_stores_result: "belief (snd (update e obs dt)) = fst (update e obs dt)"
  by (simp add: update_def Let_def)

lemma update_confidence:
  "confidence (fst (update e obs dt)) = computeConfidence (correct e (predict e dt) obs dt) obs"
  by (simp add: update_def Let_def computeConfidence_def)

lemma correct_point_fields:
  "arousal (correct e p obs dt) = clamp (arousal (fst (correct_arousal (config e) p obs))) 0 1"
  "arousal_variance (correct e p obs dt) = arousal_variance (fst (correct_arousal (config e) p obs))"
  "attention_variance (correct e p obs dt) = attention_variance p"
  "rhythm_variance (correct e p obs dt) = rhythm_variance p"
  by (auto simp: correct_def correct_valence_def correct_attention_def Let_def
      split: prod.splits option.splits dest: correct_arousal_cases)

lemma correct_arousal_skipped:
  "(case hr_confidence obs of None \<Rightarrow> True | Some c \<Rightarrow> c \<le> 0.3) \<Longrightarrow>
   correct_arousal cfg p obs = (p, 0, 0)"
  by (auto simp: correct_arousal_def split: option.splits)

lemma correct_arousal_attempt:
  assumes "heart_rate obs = Some hr" "hr_confidence obs = Some hc" "0.3 < hc"
  shows "correct_arousal cfg p obs =
     (let innov = measured_arousal hr (stress_index obs) - arousal p;
          m = mahalanobis cfg p hc innov
      in if m < outlier_threshold cfg
         then (p\<lparr>arousal := arousal p + K_arousal cfg p hc * innov,
                 arousal_variance := (1 - K_arousal cfg p hc) * arousal_variance p\<rparr>, innov, m)
         else (p\<lparr>arousal_variance := arousal_variance p + 0.01\<rparr>, 0, m))"
  using assms by (simp add: correct_arousal_def)

lemma measured_arousal_range: "0 \<le> measured_arousal hr si \<and> measured_arousal hr si \<le> 1"
  by (simp add: measured_arousal_def Let_def clamp_def)

lemma kalman_blend_range:
  fixes p m k :: real
  assumes "0 \<le> p" "p \<le> 1" "0 \<le> m" "m \<le> 1" "0 \<le> k" "k \<le> 1"
  shows "0 \<le> p + k * (m - p) \<and> p + k * (m - p) \<le> 1"
proof -
  have eq: "p + k * (m - p) = (1 - k) * p + k * m" by (simp add: algebra_simps)
  have "0 \<le> (1 - k) * p + k * m" using assms by simp
  moreover have "(1 - k) * p + k * m \<le> (1 - k) * 1 + k * 1"
    using assms by (intro add_mono mult_left_mono) simp_all
  ultimately show ?thesis by (simp add: eq)
qed

lemma gain_range:
  fixes v r :: real
  assumes "0 \<le> v" "0 \<le> r" "0 < v + r"
  shows "0 \<le> v / (v + r) \<and> v / (v + r) \<le> 1"
  using assms by (simp add: divide_le_eq)



lemma constructor_default [simp]:
  "config (constructor no_config) = default_config"
  "belief (constructor no_config) = initial_belief"
  "target (constructor no_config) = PROTOCOL_TARGETS default_target"
  by (simp_all add: constructor_def no_config_def)

lemma est_threshold1_fields:
  "belief est_threshold1 = initial_belief"
  "target est_threshold1 = PROTOCOL_TARGETS default_target"
  "config est_threshold1 = default_config\<lparr>r_base := 0.05, outlier_threshold := 1\<rparr>"
  by (simp_all add: est_threshold1_def constructor_def no_config_def default_config_def)

lemma predict_initial_0:
  "belief e = initial_belief \<Longrightarrow> target e = PROTOCOL_TARGETS default_target \<Longrightarrow>
   predict e 0 = initial_belief"
  by (simp add: predict_def Let_def initial_belief_def clamp_def)

lemma measured_120: "measured_arousal 120 None = 1"
  by (simp add: measured_arousal_def clamp_def)


lemma sqrt_5_7: "sqrt (5 / 7) < 3"
  by (rule real_less_lsqrt) simp_all

lemma update_conf1_variances:
  "arousal_variance (correct (constructor no_config) (predict (constructor no_config) 0) obs_conf1 0) = 1 / 5"
  "attention_variance (correct (constructor no_config) (predict (constructor no_config) 0) obs_conf1 0) = 1 / 5"
proof -
  have ca: "correct_arousal default_config initial_belief obs_conf1 = (initial_belief, 0, 0)"
    by (simp add: correct_arousal_def obs_conf1_def obs_base_def)
  show "arousal_variance (correct (constructor no_config) (predict (constructor no_config) 0) obs_conf1 0) = 1 / 5"
    by (simp add: correct_point_fields predict_initial_0 ca) (simp add: initial_belief_def)
  show "attention_variance (correct (constructor no_config) (predict (constructor no_config) 0) obs_conf1 0) = 1 / 5"
    by (simp add: correct_point_fields predict_initial_0) (simp add: initial_belief_def)
qed


subsection \<open>C2: the outlier gate of the arousal correction\<close>

text \<open>
  Claim C2, as the code has it. The arousal correction is attempted when the observation
  has a heart rate and an \<^verbatim>\<open>hr_confidence\<close> above 0.3. With
  \<open>R = R_arousal\<close> (\<^verbatim>\<open>r_base\<close> plus the confidence penalty),
  \<open>S = predicted variance + R\<close>, \<open>K = predicted variance / S\<close>,
  \<open>innovation = measured - predicted\<close> and the score \<open>sqrt (innovation\<^sup>2 / S)\<close>:
  when the score is at least the outlier threshold (the source tests
  \<^verbatim>\<open>mahalanobis < outlier_threshold\<close>, so a score equal to the threshold is rejected
  too) the returned arousal is the predicted one and the returned arousal variance is the
  predicted variance plus 0.01; when the score is strictly below the threshold the returned
  arousal is \<open>clamp (predicted + K * innovation)\<close> and the returned variance is
  \<open>(1 - K) * predicted variance\<close>; the clamp is the identity, so that the arousal is
  \<open>predicted + K * innovation\<close>, whenever the predicted variance and \<open>R\<close> are not
  negative. The hypothesis \<open>0 < S\<close> keeps the division and the square root inside the
  reals.
\<close>

theorem arousal_outlier_gate:
  assumes hr: "heart_rate obs = Some hr" and hc: "hr_confidence obs = Some hc" and conf: "0.3 < hc"
    and S_pos: "0 < S_arousal (config e) (predict e dt) hc"
  shows "let p = predict e dt;
             R = R_arousal (config e) hc;
             S = arousal_variance p + R;
             K = arousal_variance p / S;
             innov = measured_arousal hr (stress_index obs) - arousal p;
             score = sqrt (innov\<^sup>2 / S);
             b = fst (update e obs dt)
         in (outlier_threshold (config e) \<le> score \<longrightarrow>
               arousal b = arousal p \<and> arousal_variance b = arousal_variance p + 0.01) \<and>
            (score < outlier_threshold (config e) \<longrightarrow>
               arousal b = clamp (arousal p + K * innov) 0 1 \<and>
               arousal_variance b = (1 - K) * arousal_variance p) \<and>
            (score < outlier_threshold (config e) \<and> 0 \<le> arousal_variance p \<and> 0 \<le> R \<longrightarrow>
               arousal b = arousal p + K * innov)"
proof -
  define p where "p = predict e dt"
  define R where "R = R_arousal (config e) hc"
  define innov where "innov = measured_arousal hr (stress_index obs) - arousal p"
  define K where "K = arousal_variance p / (arousal_variance p + R)"
  define score where "score = sqrt (innov\<^sup>2 / (arousal_variance p + R))"
  define b where "b = fst (update e obs dt)"
  have K_eq: "K_arousal (config e) p hc = K"
    by (simp add: K_arousal_def S_arousal_def K_def R_def)
  have m_eq: "mahalanobis (config e) p hc innov = score"
    by (simp add: mahalanobis_def S_arousal_def score_def R_def power2_eq_square)
  have p_range: "0 \<le> arousal p \<and> arousal p \<le> 1"
    unfolding p_def by (rule predict_arousal_range)
  have ca: "correct_arousal (config e) p obs =
      (if score < outlier_threshold (config e)
       then (p\<lparr>arousal := arousal p + K * innov, arousal_variance := (1 - K) * arousal_variance p\<rparr>, innov, score)
       else (p\<lparr>arousal_variance := arousal_variance p + 0.01\<rparr>, 0, score))"
    using correct_arousal_attempt [OF hr hc conf, of "config e" p]
    by (simp add: Let_def innov_def [symmetric] m_eq K_eq)
  have b_ar: "arousal b = clamp (arousal (fst (correct_arousal (config e) p obs))) 0 1"
    and b_var: "arousal_variance b = arousal_variance (fst (correct_arousal (config e) p obs))"
    by (simp_all add: b_def p_def update_fst_fields correct_point_fields)
  have reject: "outlier_threshold (config e) \<le> score \<Longrightarrow>
      arousal b = arousal p \<and> arousal_variance b = arousal_variance p + 0.01"
    using p_range by (simp add: b_ar b_var ca clamp_id)
  have accept: "score < outlier_threshold (config e) \<Longrightarrow>
      arousal b = clamp (arousal p + K * innov) 0 1 \<and> arousal_variance b = (1 - K) * arousal_variance p"
    by (simp add: b_ar b_var ca)
  have unclamped: "arousal b = arousal p + K * innov"
    if "score < outlier_threshold (config e)" "0 \<le> arousal_variance p" "0 \<le> R"
  proof -
    have "0 < arousal_variance p + R"
      using S_pos by (simp add: S_arousal_def p_def R_def)
    then have "0 \<le> K \<and> K \<le> 1"
      unfolding K_def using that by (intro gain_range) simp_all
    then have "0 \<le> arousal p + K * innov \<and> arousal p + K * innov \<le> 1"
      unfolding innov_def using p_range measured_arousal_range [of hr "stress_index obs"]
      by (intro kalman_blend_range) simp_all
    then show ?thesis using accept that by (simp add: clamp_id)
  qed
  show ?thesis
    unfolding Let_def
    using reject accept unclamped
    by (simp add: p_def R_def innov_def K_def score_def b_def)
qed

text \<open>
  The theorem at two inputs, both a first update with \<open>dt = 0\<close>, heart rate 120 and
  confidence 1 (measured arousal 1, predicted arousal 1/2, predicted variance 1/5). On
  \<open>est_threshold1\<close> the score is \<open>sqrt ((1/4) / (1/4)) = 1\<close>, the threshold itself: the
  measurement is rejected. On the default estimator the score is \<open>sqrt (5/7)\<close>, below 3:
  the gain is 4/7, the arousal moves to 11/14 and the variance shrinks to 3/35.
\<close>

theorem arousal_outlier_gate_witness:
  "arousal (fst (update est_threshold1 obs_hr120 0)) = 1 / 2 \<and>
   arousal_variance (fst (update est_threshold1 obs_hr120 0)) = 21 / 100 \<and>
   arousal (fst (update (constructor no_config) obs_hr120 0)) = 11 / 14 \<and>
   arousal_variance (fst (update (constructor no_config) obs_hr120 0)) = 3 / 35"
proof -
  have hr: "heart_rate obs_hr120 = Some 120" and hc: "hr_confidence obs_hr120 = Some 1"
    and si: "stress_index obs_hr120 = None"
    by (simp_all add: obs_hr120_def obs_base_def)
  have c: "(0.3::real) < 1" by simp
  have S1: "0 < S_arousal (config est_threshold1) (predict est_threshold1 0) 1"
    by (simp add: predict_initial_0 est_threshold1_fields S_arousal_def R_arousal_def
        default_config_def initial_belief_def)
  have S2: "0 < S_arousal (config (constructor no_config)) (predict (constructor no_config) 0) 1"
    by (simp add: predict_initial_0 S_arousal_def R_arousal_def default_config_def initial_belief_def)
  have rej: "arousal (fst (update est_threshold1 obs_hr120 0)) = 1 / 2 \<and>
      arousal_variance (fst (update est_threshold1 obs_hr120 0)) = 21 / 100"
    using arousal_outlier_gate [OF hr hc c S1]
    by (simp add: Let_def si predict_initial_0 est_threshold1_fields measured_120 R_arousal_def
        default_config_def initial_belief_def power2_eq_square)
  have acc: "arousal (fst (update (constructor no_config) obs_hr120 0)) = 11 / 14 \<and>
      arousal_variance (fst (update (constructor no_config) obs_hr120 0)) = 3 / 35"
    using arousal_outlier_gate [OF hr hc c S2] sqrt_5_7
    by (simp add: Let_def si predict_initial_0 measured_120 R_arousal_def
        default_config_def initial_belief_def power2_eq_square)
  show ?thesis using rej acc by simp
qed

text \<open>
  C2 as the claim words it (``exceeds the threshold: rejected; otherwise the Kalman
  correction is applied'') fails where the score equals the threshold. On
  \<open>est_threshold1\<close> the score is 1 and the threshold is 1, so the score does not exceed
  it; the Kalman correction would give arousal 9/10 and variance 1/25, and \<^verbatim>\<open>update\<close>
  returns arousal 1/2 and variance 21/100.
\<close>

theorem arousal_outlier_gate_counterexample:
  "mahalanobis (config est_threshold1) (predict est_threshold1 0) 1
      (measured_arousal 120 None - arousal (predict est_threshold1 0)) = 1 \<and>
   outlier_threshold (config est_threshold1) = 1 \<and>
   heart_rate obs_hr120 = Some 120 \<and> hr_confidence obs_hr120 = Some 1 \<and> stress_index obs_hr120 = None \<and>
   arousal (fst (update est_threshold1 obs_hr120 0)) = 1 / 2 \<and>
   arousal (predict est_threshold1 0) +
     K_arousal (config est_threshold1) (predict est_threshold1 0) 1 *
       (measured_arousal 120 None - arousal (predict est_threshold1 0)) = 9 / 10 \<and>
   arousal_variance (fst (update est_threshold1 obs_hr120 0)) = 21 / 100 \<and>
   (1 - K_arousal (config est_threshold1) (predict est_threshold1 0) 1) *
     arousal_variance (predict est_threshold1 0) = 1 / 25"
  by (simp add: predict_initial_0 est_threshold1_fields measured_120 mahalanobis_def S_arousal_def
      R_arousal_def K_arousal_def default_config_def initial_belief_def obs_hr120_def obs_base_def
      update_fst_fields correct_point_fields correct_arousal_def clamp_def Let_def)

subsection \<open>C3: the confidence of the returned belief\<close>

text \<open>
  Claim C3, as the code has it. When the observation carries an \<^verbatim>\<open>hr_confidence\<close>
  \<open>c\<close> that is not negative, the confidence of the returned belief is
  \<open>clamp (sqrt (certainty * c))\<close> to \<open>[0, 1]\<close>, where
  \<open>certainty = 1 - min 1 ((arousal_variance + attention_variance) / 2)\<close> is taken on the
  variances of the returned belief: one minus the average of the two variances capped at
  1 (the average, not half of it). The clamp is the identity when \<open>c \<le> 1\<close> and the
  variances do not sum to a negative number.
\<close>

theorem confidence_formula:
  assumes hc: "hr_confidence obs = Some c" and c0: "0 \<le> c"
  shows "let b = fst (update e obs dt);
             certainty = 1 - min 1 ((arousal_variance b + attention_variance b) / 2)
         in confidence b = clamp (sqrt (certainty * c)) 0 1 \<and>
            (c \<le> 1 \<and> 0 \<le> arousal_variance b + attention_variance b \<longrightarrow>
               confidence b = sqrt (certainty * c))"
proof -
  define b where "b = fst (update e obs dt)"
  define certainty where "certainty = 1 - min 1 ((arousal_variance b + attention_variance b) / 2)"
  have conf: "confidence b = clamp (sqrt (certainty * c)) 0 1"
    by (simp add: b_def certainty_def update_confidence update_fst_fields computeConfidence_def hc)
  have cert0: "0 \<le> certainty" by (simp add: certainty_def)
  have plain: "confidence b = sqrt (certainty * c)"
    if "c \<le> 1" "0 \<le> arousal_variance b + attention_variance b"
  proof -
    have "certainty \<le> 1" using that by (simp add: certainty_def)
    then have "certainty * c \<le> 1 * 1" using that cert0 c0 by (intro mult_mono) simp_all
    then have "sqrt (certainty * c) \<le> 1" by simp
    moreover have "0 \<le> sqrt (certainty * c)" using cert0 c0 by simp
    ultimately show ?thesis by (simp add: conf clamp_id)
  qed
  show ?thesis unfolding Let_def using conf plain by (simp add: b_def certainty_def)
qed

text \<open>
  The theorem on the first update of the default estimator, \<open>dt = 0\<close>, with an
  observation that carries only \<^verbatim>\<open>hr_confidence = 1\<close>: both variances are 1/5, the
  certainty is 4/5 and the confidence is \<open>sqrt (4/5)\<close>.
\<close>

theorem confidence_formula_witness:
  "hr_confidence obs_conf1 = Some 1 \<and>
   confidence (fst (update (constructor no_config) obs_conf1 0)) = sqrt (4 / 5)"
proof -
  have hc: "hr_confidence obs_conf1 = Some 1" by (simp add: obs_conf1_def obs_base_def)
  have c0: "(0::real) \<le> 1" by simp
  show ?thesis
    using confidence_formula [OF hc c0, of "constructor no_config" 0]
    by (simp add: Let_def update_fst_fields update_conf1_variances hc)
qed

text \<open>
  C3 as the claim words it takes half the average of the variances,
  \<open>certainty = 1 - min 1 (avg / 2)\<close>. At the same input that would give
  \<open>sqrt (9/10)\<close>; \<^verbatim>\<open>update\<close> returns \<open>sqrt (4/5)\<close>.
\<close>

theorem confidence_formula_counterexample:
  "hr_confidence obs_conf1 = Some 1 \<and>
   arousal_variance (fst (update (constructor no_config) obs_conf1 0)) = 1 / 5 \<and>
   attention_variance (fst (update (constructor no_config) obs_conf1 0)) = 1 / 5 \<and>
   confidence (fst (update (constructor no_config) obs_conf1 0)) = sqrt (4 / 5) \<and>
   confidence (fst (update (constructor no_config) obs_conf1 0)) \<noteq>
     sqrt ((1 - min 1 (((arousal_variance (fst (update (constructor no_config) obs_conf1 0)) +
                          attention_variance (fst (update (constructor no_config) obs_conf1 0))) / 2) / 2)) * 1)"
proof -
  have hc: "hr_confidence obs_conf1 = Some 1" by (simp add: obs_conf1_def obs_base_def)
  have le1: "sqrt (4 / 5) \<le> 1" by (rule real_le_lsqrt) simp_all
  have cf: "confidence (fst (update (constructor no_config) obs_conf1 0)) = sqrt (4 / 5)"
    using le1 by (simp add: update_confidence computeConfidence_def update_conf1_variances hc clamp_def)
  show ?thesis
    by (simp add: update_fst_fields update_conf1_variances cf hc)
qed

subsection \<open>Auxiliary facts about doubles\<close>

text \<open>
  What overflows and what cannot be NaN: a clamp of anything but NaN is a number of the
  range; the relaxation \<open>x + alpha * (target - x)\<close> of the predict step is not NaN
  when \<^verbatim>\<open>Math.exp\<close> stays finite; and an arousal correction that passes the outlier
  gate has a finite innovation and a finite gain.
\<close>

lemma max_double_gt_1: "1 < max_double"
  by (simp add: max_double_def)

lemma overflow_Fin: "\<bar>x\<bar> \<le> max_double \<Longrightarrow> overflow x = Fin x"
  by (auto simp: overflow_def)

lemma overflow_not_NaN [simp]: "overflow x \<noteq> NaN"
  by (simp add: overflow_def)

lemma overflow_Fin_D: "overflow x = Fin y \<Longrightarrow> y = x"
  by (auto simp: overflow_def split: if_splits)

lemma clamp_double_NaN: "clamp_double NaN lo hi = NaN"
  by (cases lo; cases hi) (simp_all add: clamp_double_def)

lemma overflow_cases:
  "overflow y = Fin y \<or> (overflow y = PosInf \<and> max_double < y) \<or> overflow y = NegInf"
  by (simp add: overflow_def)

lemma clamp_double_in_range:
  "lo \<le> hi \<Longrightarrow> v \<noteq> NaN \<Longrightarrow> in_range_double lo hi (clamp_double v (Fin lo) (Fin hi))"
  by (cases v) (simp_all add: clamp_double_def)

lemma dadd_Fin_not_NaN: "d \<noteq> NaN \<Longrightarrow> dadd (Fin x) d \<noteq> NaN"
  by (cases d) simp_all

lemma dadd_Fin_Fin_D: "dadd (Fin x) d = Fin s \<Longrightarrow> \<exists>y. d = Fin y \<and> s = x + y"
  by (cases d) (auto dest: overflow_Fin_D)

lemma dmul_Fin_Fin_not_NaN: "dmul (Fin a) (Fin b) \<noteq> NaN"
  by simp

lemma blend_not_NaN: "dadd (Fin x) (dmul (Fin a) (Fin d)) \<noteq> NaN"
  by (rule dadd_Fin_not_NaN) simp

lemma exp_fence_tau:
  assumes "exp (- dt / 5) \<le> max_double" "5 \<le> tau"
  shows "exp (- dt / tau) \<le> max_double"
proof (cases "0 \<le> dt")
  case True
  then have "- dt / tau \<le> 0" using assms(2) by (simp add: divide_nonpos_pos)
  then have "exp (- dt / tau) \<le> 1" by simp
  then show ?thesis using max_double_gt_1 by linarith
next
  case False
  then have "- dt / tau \<le> - dt / 5" using assms(2) by (intro divide_left_mono) auto
  then have "exp (- dt / tau) \<le> exp (- dt / 5)" by simp
  then show ?thesis using assms(1) by linarith
qed

lemma one_minus_exp_Fin:
  assumes "exp y \<le> max_double"
  shows "\<exists>a. dsub (Fin 1) (dexp (overflow y)) = Fin a"
proof -
  consider (fin) "overflow y = Fin y" | (pos) "overflow y = PosInf" "max_double < y"
    | (neg) "overflow y = NegInf"
    using overflow_cases [of y] by blast
  then show ?thesis
  proof cases
    case fin
    have pos: "0 < exp y" by simp
    then have e: "overflow (exp y) = Fin (exp y)"
      using assms by (intro overflow_Fin) simp
    have "\<bar>1 - exp y\<bar> \<le> max_double"
      using assms max_double_gt_1 pos by (intro abs_leI) linarith+
    then have "overflow (1 - exp y) = Fin (1 - exp y)"
      by (rule overflow_Fin)
    then show ?thesis by (simp add: fin e dsub_def)
  next
    case pos
    have "1 + y \<le> exp y" by (rule exp_ge_add_one_self)
    then have False using pos(2) assms by linarith
    then show ?thesis ..
  next
    case neg
    have "overflow 1 = Fin 1" using max_double_gt_1 by (intro overflow_Fin) simp
    then show ?thesis by (simp add: neg dsub_def)
  qed
qed

lemma alpha_Fin:
  assumes "exp (- dt / tau) \<le> max_double" "0 < tau"
  shows "\<exists>a. dsub (Fin 1) (dexp (ddiv (Fin (- dt)) (Fin tau))) = Fin a"
proof -
  have d: "ddiv (Fin (- dt)) (Fin tau) = overflow (- dt / tau)" using assms(2) by simp
  show ?thesis unfolding d by (rule one_minus_exp_Fin [OF assms(1)])
qed

lemma relax_not_NaN:
  assumes "exp (- dt / tau) \<le> max_double" "0 < tau" "\<bar>t - x\<bar> \<le> max_double"
  shows "dadd (Fin x) (dmul (dsub (Fin 1) (dexp (ddiv (Fin (- dt)) (Fin tau)))) (dsub (Fin t) (Fin x)))
           \<noteq> NaN"
proof -
  obtain a where a: "dsub (Fin 1) (dexp (ddiv (Fin (- dt)) (Fin tau))) = Fin a"
    using alpha_Fin [OF assms(1,2)] by blast
  have "dsub (Fin t) (Fin x) = Fin (t - x)"
    using overflow_Fin [OF assms(3)] by (simp add: dsub_def)
  then show ?thesis by (simp only: a blend_not_NaN not_False_eq_True)
qed

lemma predict_double_fields:
  "d_arousal (predict_double e dt) =
     clamp_double (dadd (Fin (arousal (belief e)))
        (dmul (dsub (Fin 1) (dexp (ddiv (Fin (- dt)) (Fin TAU_AROUSAL))))
              (dsub (Fin (target_arousal (target e))) (Fin (arousal (belief e)))))) (Fin 0) (Fin 1)"
  "d_attention (predict_double e dt) =
     clamp_double (dadd (Fin (attention (belief e)))
        (dmul (dsub (Fin 1) (dexp (ddiv (Fin (- dt)) (Fin TAU_ATTENTION))))
              (dsub (Fin (target_attention (target e))) (Fin (attention (belief e)))))) (Fin 0) (Fin 1)"
  "d_rhythm_alignment (predict_double e dt) =
     clamp_double (dadd (Fin (rhythm_alignment (belief e)))
        (dmul (dsub (Fin 1) (dexp (ddiv (Fin (- dt)) (Fin TAU_RHYTHM))))
              (dsub (Fin (target_rhythm_alignment (target e))) (Fin (rhythm_alignment (belief e))))))
        (Fin 0) (Fin 1)"
  "d_valence (predict_double e dt) =
     clamp_double (dadd (Fin (valence (belief e)))
        (dmul (dsub (Fin 1) (dexp (ddiv (Fin (- dt)) (Fin TAU_VALENCE))))
              (dsub (Fin (target_valence (target e))) (Fin (valence (belief e)))))) (Fin (- 1)) (Fin 1)"
  "d_arousal_variance (predict_double e dt) =
     dadd (Fin (arousal_variance (belief e))) (dmul (Fin (q_base (config e))) (Fin dt))"
  by (simp_all add: predict_double_def Let_def)

lemma predict_double_in_range:
  assumes ex: "exp (- dt / TAU_ATTENTION) \<le> max_double"
    and da: "\<bar>target_arousal (target e) - arousal (belief e)\<bar> \<le> max_double"
    and dt: "\<bar>target_attention (target e) - attention (belief e)\<bar> \<le> max_double"
    and dr: "\<bar>target_rhythm_alignment (target e) - rhythm_alignment (belief e)\<bar> \<le> max_double"
    and dv: "\<bar>target_valence (target e) - valence (belief e)\<bar> \<le> max_double"
  shows "in_range_double 0 1 (d_arousal (predict_double e dt))"
    and "in_range_double 0 1 (d_attention (predict_double e dt))"
    and "in_range_double 0 1 (d_rhythm_alignment (predict_double e dt))"
    and "in_range_double (- 1) 1 (d_valence (predict_double e dt))"
proof -
  have e5: "exp (- dt / 5) \<le> max_double" using ex by (simp add: TAU_ATTENTION_def)
  have e15: "exp (- dt / TAU_AROUSAL) \<le> max_double"
    unfolding TAU_AROUSAL_def by (rule exp_fence_tau [OF e5]) simp
  have e10: "exp (- dt / TAU_RHYTHM) \<le> max_double"
    unfolding TAU_RHYTHM_def by (rule exp_fence_tau [OF e5]) simp
  have e8: "exp (- dt / TAU_VALENCE) \<le> max_double"
    unfolding TAU_VALENCE_def by (rule exp_fence_tau [OF e5]) simp
  show "in_range_double 0 1 (d_arousal (predict_double e dt))"
    unfolding predict_double_fields
    by (rule clamp_double_in_range, simp, rule relax_not_NaN [OF e15 _ da]) (simp add: TAU_AROUSAL_def)
  show "in_range_double 0 1 (d_attention (predict_double e dt))"
    unfolding predict_double_fields
    by (rule clamp_double_in_range, simp, rule relax_not_NaN [OF ex _ dt]) (simp add: TAU_ATTENTION_def)
  show "in_range_double 0 1 (d_rhythm_alignment (predict_double e dt))"
    unfolding predict_double_fields
    by (rule clamp_double_in_range, simp, rule relax_not_NaN [OF e10 _ dr]) (simp add: TAU_RHYTHM_def)
  show "in_range_double (- 1) 1 (d_valence (predict_double e dt))"
    unfolding predict_double_fields
    by (rule clamp_double_in_range, simp, rule relax_not_NaN [OF e8 _ dv]) (simp add: TAU_VALENCE_def)
qed

lemma in_range_double_D: "in_range_double lo hi d \<Longrightarrow> \<exists>x. d = Fin x \<and> lo \<le> x \<and> x \<le> hi"
  by (cases d) simp_all

lemma predict_double_variance:
  assumes "\<bar>q_base (config e) * dt\<bar> \<le> max_double" "\<bar>arousal_variance (predict e dt)\<bar> \<le> max_double"
  shows "d_arousal_variance (predict_double e dt) = Fin (arousal_variance (predict e dt))"
  using assms by (simp add: predict_double_fields predict_fields overflow_Fin)

lemma dless_Fin_D: "dless a (Fin t) \<Longrightarrow> a = NegInf \<or> (\<exists>v. a = Fin v)"
  by (cases a) simp_all

lemma dsqrt_Fin_D: "dsqrt a = Fin v \<Longrightarrow> \<exists>x. a = Fin x"
  by (cases a) simp_all

lemma dsqrt_not_NegInf [simp]: "dsqrt a \<noteq> NegInf"
  by (cases a) simp_all

lemma ddiv_Fin_D:
  "ddiv a b = Fin x \<Longrightarrow> (\<exists>n. a = Fin n) \<and> (b = PosInf \<or> b = NegInf \<or> (\<exists>s. b = Fin s \<and> s \<noteq> 0))"
  by (cases a; cases b) (auto split: if_splits)

lemma dmul_self_Fin_D: "dmul a a = Fin n \<Longrightarrow> \<exists>i. a = Fin i"
  by (cases a) (simp_all add: signed_inf_def)

lemma R_arousal_double_Fin_D: "R_arousal_double cfg hc = Fin r \<Longrightarrow> r = R_arousal cfg hc"
proof (cases "adaptive_r cfg")
  case False
  assume "R_arousal_double cfg hc = Fin r"
  then show ?thesis using False by (simp add: R_arousal_double_def R_arousal_def)
next
  case True
  assume "R_arousal_double cfg hc = Fin r"
  then have a: "dadd (Fin (r_base cfg)) (dmul (dsub (Fin 1) (Fin hc)) (Fin (r_adaptation_rate cfg))) = Fin r"
    using True by (simp add: R_arousal_double_def)
  then obtain y where y: "dmul (dsub (Fin 1) (Fin hc)) (Fin (r_adaptation_rate cfg)) = Fin y"
    "r = r_base cfg + y" by (blast dest: dadd_Fin_Fin_D)
  have "y = (1 - hc) * r_adaptation_rate cfg"
    using y(1) by (auto simp: dsub_def overflow_def signed_inf_def split: if_splits)
  then show ?thesis using y(2) True by (simp add: R_arousal_def)
qed

lemma correct_arousal_double_others:
  "correct_arousal_double cfg p obs = (c1, ci, m) \<Longrightarrow>
     d_attention c1 = d_attention p \<and> d_rhythm_alignment c1 = d_rhythm_alignment p \<and>
     d_valence c1 = d_valence p"
  by (auto simp: correct_arousal_double_def Let_def split: option.splits if_splits)

lemma accepted_not_NaN:
  assumes m: "dless (dsqrt (ddiv (dmul innov innov) (dadd (Fin pv) (R_arousal_double cfg hc)))) (Fin thr)"
    and gain: "\<bar>pv / (pv + R_arousal cfg hc)\<bar> \<le> max_double"
  shows "dadd (Fin pa) (dmul (ddiv (Fin pv) (dadd (Fin pv) (R_arousal_double cfg hc))) innov) \<noteq> NaN"
proof -
  let ?S = "dadd (Fin pv) (R_arousal_double cfg hc)"
  from m obtain v where "dsqrt (ddiv (dmul innov innov) ?S) = Fin v"
    by (auto dest: dless_Fin_D)
  then obtain x where "ddiv (dmul innov innov) ?S = Fin x" by (blast dest: dsqrt_Fin_D)
  then have i: "\<exists>n. dmul innov innov = Fin n"
    and s: "?S = PosInf \<or> ?S = NegInf \<or> (\<exists>s. ?S = Fin s \<and> s \<noteq> 0)"
    by (blast dest: ddiv_Fin_D)+
  from i obtain i where innov: "innov = Fin i" by (blast dest: dmul_self_Fin_D)
  have "\<exists>k. ddiv (Fin pv) ?S = Fin k"
  proof -
    consider (inf) "?S = PosInf \<or> ?S = NegInf" | (fin) s where "?S = Fin s" "s \<noteq> 0"
      using s by blast
    then show ?thesis
    proof cases
      case inf
      then show ?thesis by auto
    next
      case fin
      then obtain r where r: "R_arousal_double cfg hc = Fin r" "s = pv + r"
        by (blast dest: dadd_Fin_Fin_D)
      then have "s = pv + R_arousal cfg hc" by (simp add: R_arousal_double_Fin_D)
      then have "overflow (pv / s) = Fin (pv / s)" using gain by (simp add: overflow_Fin)
      then show ?thesis using fin by simp
    qed
  qed
  then obtain k where "ddiv (Fin pv) ?S = Fin k" ..
  then show ?thesis by (simp only: innov blend_not_NaN not_False_eq_True)
qed

lemma correct_arousal_double_not_NaN:
  assumes pa: "d_arousal p = Fin pa"
    and pv: "d_arousal_variance p = Fin pv"
    and gain: "case hr_confidence obs of None \<Rightarrow> True
               | Some hc \<Rightarrow> \<bar>pv / (pv + R_arousal cfg hc)\<bar> \<le> max_double"
  shows "d_arousal (fst (correct_arousal_double cfg p obs)) \<noteq> NaN"
proof (cases "\<exists>hr hc. heart_rate obs = Some hr \<and> hr_confidence obs = Some hc \<and> 0.3 < hc")
  case False
  then have "correct_arousal_double cfg p obs = (p, Fin 0, Fin 0)"
    by (auto simp: correct_arousal_double_def split: option.splits)
  then show ?thesis using pa by simp
next
  case True
  then obtain hr hc where h: "heart_rate obs = Some hr" "hr_confidence obs = Some hc" "0.3 < hc"
    by blast
  have g: "\<bar>pv / (pv + R_arousal cfg hc)\<bar> \<le> max_double" using gain h(2) by simp
  show ?thesis
    using accepted_not_NaN [OF _ g, of "dsub (measured_arousal_double hr (stress_index obs)) (Fin pa)"
        "outlier_threshold cfg" pa]
    by (simp add: correct_arousal_double_def h pa pv Let_def)
qed

lemma correct_double_fields:
  "d_arousal (correct_double e p obs dt) =
     clamp_double (d_arousal (fst (correct_arousal_double (config e) p obs))) (Fin 0) (Fin 1)"
  "d_attention (correct_double e p obs dt) =
     clamp_double
       (if user_interaction obs = Some pause \<or> visibilty_state obs = hidden
        then dmul (d_attention p) (Fin 0.95)
        else dmin (Fin 1) (dadd (d_attention p) (dmul (Fin 0.15) (Fin dt)))) (Fin 0) (Fin 1)"
  "d_rhythm_alignment (correct_double e p obs dt) = clamp_double (d_rhythm_alignment p) (Fin 0) (Fin 1)"
  "d_valence (correct_double e p obs dt) =
     clamp_double
       (case facial_valence obs of
          None \<Rightarrow> d_valence p
        | Some fv \<Rightarrow> dadd (dmul (Fin 0.8) (d_valence p)) (dmul (Fin 0.2) (Fin fv))) (Fin (- 1)) (Fin 1)"
  by (auto simp: correct_double_def correct_valence_double_def correct_attention_double_def Let_def
      split: prod.splits option.splits dest: correct_arousal_double_others)

lemma update_double_fields:
  "d_arousal (update_double e obs dt) = d_arousal (correct_double e (predict_double e dt) obs dt)"
  "d_attention (update_double e obs dt) = d_attention (correct_double e (predict_double e dt) obs dt)"
  "d_rhythm_alignment (update_double e obs dt) =
     d_rhythm_alignment (correct_double e (predict_double e dt) obs dt)"
  "d_valence (update_double e obs dt) = d_valence (correct_double e (predict_double e dt) obs dt)"
  by (simp_all add: update_double_def Let_def)

lemma dmin_Fin_not_NaN: "d \<noteq> NaN \<Longrightarrow> dmin (Fin x) d \<noteq> NaN"
  by (cases d) simp_all

lemma attention_not_NaN:
  "(if c then dmul (Fin a) (Fin 0.95) else dmin (Fin 1) (dadd (Fin a) (dmul (Fin 0.15) (Fin dt)))) \<noteq> NaN"
  by (simp add: dmin_Fin_not_NaN dadd_Fin_not_NaN)

lemma valence_not_NaN:
  assumes "- 1 \<le> v" "v \<le> 1"
  shows "(case fv of None \<Rightarrow> Fin v | Some f \<Rightarrow> dadd (dmul (Fin 0.8) (Fin v)) (dmul (Fin 0.2) (Fin f)))
           \<noteq> NaN"
proof (cases fv)
  case None
  then show ?thesis by simp
next
  case (Some f)
  have "\<bar>0.8 * v\<bar> \<le> max_double" using assms max_double_gt_1 by (simp add: abs_le_iff)
  then have "dmul (Fin 0.8) (Fin v) = Fin (0.8 * v)" by (simp add: overflow_Fin)
  then show ?thesis using Some by (simp add: dadd_Fin_not_NaN)
qed

lemma exp_overflows: "max_double < exp (4000 / 3)"
proof -
  have "1 + 1 \<le> exp (1::real)" by (rule exp_ge_add_one_self)
  then have "(2::real) \<le> exp 1" by simp
  then have "(2::real) ^ 1333 \<le> exp 1 ^ 1333" by (intro power_mono) simp_all
  also have "exp (1::real) ^ 1333 = exp (of_nat 1333 * 1)" by (rule exp_of_nat_mult [symmetric])
  also have "\<dots> \<le> exp (4000 / 3)" by simp
  finally have "(2::real) ^ 1333 \<le> exp (4000 / 3)" .
  moreover have "max_double < 2 ^ 1333" by (simp add: max_double_def)
  ultimately show ?thesis by linarith
qed

subsection \<open>C4: the point estimates stay in range\<close>

text \<open>
  Claim C4, as the code has it. \<^verbatim>\<open>clamp\<close> is \<^verbatim>\<open>Math.max(min, Math.min(max, value))\<close>,
  which returns NaN for NaN, so the point estimates are in range exactly when none of them
  is NaN going into a clamp. Over doubles with overflow: from an estimator, an observation
  and a \<open>dt\<close> of finite numbers such that

    \<^item> \<^verbatim>\<open>Math.exp(-dt / tau)\<close> does not overflow (stated for \<^verbatim>\<open>TAU_ATTENTION\<close> = 5, the
      smallest of the four time constants, whose exponential is the largest for a negative
      \<open>dt\<close>; every \<open>dt \<ge> 0\<close> qualifies),
    \<^item> the four differences \<open>target - estimate\<close> do not overflow,
    \<^item> \<open>q_base * dt\<close> and the predicted arousal variance do not overflow, and
    \<^item> the gain \<open>K = predicted variance / S\<close> does not overflow when
      \<^verbatim>\<open>hr_confidence\<close> is present,

  the belief returned by \<^verbatim>\<open>update\<close> has arousal, attention and rhythm alignment in
  \<open>[0, 1]\<close> and valence in \<open>[-1, 1]\<close>, and so has the belief the predict step hands to
  the correct step. No hypothesis bounds the heart rate, the stress index, the facial
  valence or the confidence: a measurement that is not a number fails the outlier gate.
\<close>

theorem point_estimates_in_range_without_overflow:
  assumes ex: "exp (- dt / TAU_ATTENTION) \<le> max_double"
    and da: "\<bar>target_arousal (target e) - arousal (belief e)\<bar> \<le> max_double"
    and dt: "\<bar>target_attention (target e) - attention (belief e)\<bar> \<le> max_double"
    and dr: "\<bar>target_rhythm_alignment (target e) - rhythm_alignment (belief e)\<bar> \<le> max_double"
    and dv: "\<bar>target_valence (target e) - valence (belief e)\<bar> \<le> max_double"
    and q: "\<bar>q_base (config e) * dt\<bar> \<le> max_double"
    and pv: "\<bar>arousal_variance (predict e dt)\<bar> \<le> max_double"
    and gain: "case hr_confidence obs of
                 None \<Rightarrow> True
               | Some hc \<Rightarrow> \<bar>K_arousal (config e) (predict e dt) hc\<bar> \<le> max_double"
  shows "in_range_double 0 1 (d_arousal (update_double e obs dt)) \<and>
         in_range_double 0 1 (d_attention (update_double e obs dt)) \<and>
         in_range_double 0 1 (d_rhythm_alignment (update_double e obs dt)) \<and>
         in_range_double (- 1) 1 (d_valence (update_double e obs dt)) \<and>
         in_range_double 0 1 (d_arousal (predict_double e dt)) \<and>
         in_range_double 0 1 (d_attention (predict_double e dt)) \<and>
         in_range_double 0 1 (d_rhythm_alignment (predict_double e dt)) \<and>
         in_range_double (- 1) 1 (d_valence (predict_double e dt))"
proof -
  note p = predict_double_in_range [OF ex da dt dr dv]
  obtain pa where pa: "d_arousal (predict_double e dt) = Fin pa"
    using p(1) by (blast dest: in_range_double_D)
  obtain pt where pt: "d_attention (predict_double e dt) = Fin pt"
    using p(2) by (blast dest: in_range_double_D)
  obtain pr where pr: "d_rhythm_alignment (predict_double e dt) = Fin pr"
    using p(3) by (blast dest: in_range_double_D)
  obtain pvl where pvl: "d_valence (predict_double e dt) = Fin pvl" "- 1 \<le> pvl" "pvl \<le> 1"
    using p(4) by (blast dest: in_range_double_D)
  have var: "d_arousal_variance (predict_double e dt) = Fin (arousal_variance (predict e dt))"
    using q pv by (rule predict_double_variance)
  have gain': "case hr_confidence obs of
                 None \<Rightarrow> True
               | Some hc \<Rightarrow>
                   \<bar>arousal_variance (predict e dt) /
                     (arousal_variance (predict e dt) + R_arousal (config e) hc)\<bar> \<le> max_double"
    using gain by (cases "hr_confidence obs") (simp_all add: K_arousal_def S_arousal_def)
  have a: "in_range_double 0 1 (d_arousal (update_double e obs dt))"
    unfolding update_double_fields correct_double_fields
    by (rule clamp_double_in_range, simp, rule correct_arousal_double_not_NaN [OF pa var gain'])
  have b: "in_range_double 0 1 (d_attention (update_double e obs dt))"
    unfolding update_double_fields correct_double_fields pt
    by (rule clamp_double_in_range, simp, rule attention_not_NaN)
  have c: "in_range_double 0 1 (d_rhythm_alignment (update_double e obs dt))"
    unfolding update_double_fields correct_double_fields pr
    by (rule clamp_double_in_range) simp_all
  have d: "in_range_double (- 1) 1 (d_valence (update_double e obs dt))"
    unfolding update_double_fields correct_double_fields pvl(1)
    by (rule clamp_double_in_range, simp, rule valence_not_NaN [OF pvl(2,3)])
  show ?thesis using a b c d p by simp
qed

text \<open>
  The theorem on the first update of the default estimator with \<open>dt = 1\<close>, heart rate 120
  and confidence 1.
\<close>

theorem point_estimates_in_range_without_overflow_witness:
  "in_range_double 0 1 (d_arousal (update_double (constructor no_config) obs_hr120 1)) \<and>
   in_range_double 0 1 (d_attention (update_double (constructor no_config) obs_hr120 1)) \<and>
   in_range_double 0 1 (d_rhythm_alignment (update_double (constructor no_config) obs_hr120 1)) \<and>
   in_range_double (- 1) 1 (d_valence (update_double (constructor no_config) obs_hr120 1))"
proof -
  have "exp (- 1 / TAU_ATTENTION) \<le> 1" by (simp add: TAU_ATTENTION_def)
  then have ex: "exp (- 1 / TAU_ATTENTION) \<le> max_double" using max_double_gt_1 by linarith
  have small: "\<bar>x\<bar> \<le> 1 \<Longrightarrow> \<bar>x\<bar> \<le> max_double" for x :: real
    using max_double_gt_1 by linarith
  have da: "\<bar>target_arousal (target (constructor no_config)) - arousal (belief (constructor no_config))\<bar>
              \<le> max_double"
    by (rule small) (simp add: initial_belief_def)
  have dt: "\<bar>target_attention (target (constructor no_config)) - attention (belief (constructor no_config))\<bar>
              \<le> max_double"
    by (rule small) (simp add: initial_belief_def)
  have dr: "\<bar>target_rhythm_alignment (target (constructor no_config)) -
             rhythm_alignment (belief (constructor no_config))\<bar> \<le> max_double"
    by (rule small) (simp add: initial_belief_def)
  have dv: "\<bar>target_valence (target (constructor no_config)) - valence (belief (constructor no_config))\<bar>
              \<le> max_double"
    by (rule small) (simp add: initial_belief_def)
  have q: "\<bar>q_base (config (constructor no_config)) * 1\<bar> \<le> max_double"
    by (rule small) (simp add: default_config_def)
  have pv: "\<bar>arousal_variance (predict (constructor no_config) 1)\<bar> \<le> max_double"
    by (rule small) (simp add: predict_fields initial_belief_def default_config_def)
  have "\<bar>K_arousal (config (constructor no_config)) (predict (constructor no_config) 1) 1\<bar> \<le> max_double"
    by (rule small)
      (simp add: K_arousal_def S_arousal_def R_arousal_def predict_fields initial_belief_def
        default_config_def)
  then have gain: "case hr_confidence obs_hr120 of
                 None \<Rightarrow> True
               | Some hc \<Rightarrow>
                   \<bar>K_arousal (config (constructor no_config)) (predict (constructor no_config) 1) hc\<bar>
                     \<le> max_double"
    by (simp add: obs_hr120_def obs_base_def)
  show ?thesis
    using point_estimates_in_range_without_overflow [OF ex da dt dr dv q pv gain] by simp
qed

text \<open>
  Without the first hypothesis the claim fails. On the first update of the default
  estimator with \<open>dt = - 20000\<close> and an observation with no optional field,
  \<^verbatim>\<open>Math.exp(20000 / 15)\<close> is \<^verbatim>\<open>Infinity\<close>, \<^verbatim>\<open>alpha_arousal\<close> is
  \<^verbatim>\<open>-Infinity\<close>, the arousal is at its target, \<^verbatim>\<open>-Infinity * 0\<close> is NaN, and both
  clamps return NaN: the arousal the predict step computes and the arousal
  \<^verbatim>\<open>update\<close> returns are NaN, which is in no range.
\<close>

theorem point_estimates_in_range_counterexample:
  "max_double < exp (- (- 20000) / TAU_AROUSAL) \<and>
   d_arousal (predict_double (constructor no_config) (- 20000)) = NaN \<and>
   d_arousal (update_double (constructor no_config) obs_base (- 20000)) = NaN"
proof -
  have e: "max_double < exp (- (- 20000) / TAU_AROUSAL)"
    using exp_overflows by (simp add: TAU_AROUSAL_def)
  have "\<bar>4000 / 3\<bar> \<le> max_double" by (simp add: max_double_def)
  then have "overflow (4000 / 3) = Fin (4000 / 3)" by (rule overflow_Fin)
  then have d: "ddiv (Fin (- (- 20000))) (Fin TAU_AROUSAL) = Fin (4000 / 3)"
    by (simp add: TAU_AROUSAL_def)
  have x: "dexp (Fin (4000 / 3)) = PosInf" using exp_overflows by (simp add: overflow_def)
  have z: "overflow 0 = Fin 0" by (rule overflow_Fin) (simp add: max_double_def)
  have p: "d_arousal (predict_double (constructor no_config) (- 20000)) = NaN"
    unfolding predict_double_fields d x
    by (simp add: initial_belief_def z dsub_def signed_inf_def clamp_double_def)
  have s: "correct_arousal_double cfg q obs_base = (q, Fin 0, Fin 0)" for cfg q
    by (simp add: correct_arousal_double_def obs_base_def)
  have "d_arousal (update_double (constructor no_config) obs_base (- 20000)) = NaN"
    by (simp add: update_double_fields correct_double_fields s p clamp_double_def)
  then show ?thesis using e p by simp
qed

subsection \<open>C5: no arousal correction at low confidence\<close>

text \<open>
  Claim C5. When \<^verbatim>\<open>hr_confidence\<close> is absent or at most 0.3, the arousal and the
  arousal variance of the returned belief are those of the predict step: the arousal
  relaxed towards the target with the lag \<open>1 - exp (- dt / 15)\<close> and clamped, the variance
  grown by \<open>q_base * dt\<close>.
\<close>

theorem no_arousal_correction_at_low_confidence:
  assumes "case hr_confidence obs of None \<Rightarrow> True | Some c \<Rightarrow> c \<le> 0.3"
  shows "arousal (fst (update e obs dt)) = arousal (predict e dt) \<and>
         arousal_variance (fst (update e obs dt)) = arousal_variance (predict e dt) \<and>
         arousal (predict e dt) =
           clamp (arousal (belief e) + (1 - exp (- dt / 15)) * (target_arousal (target e) - arousal (belief e))) 0 1 \<and>
         arousal_variance (predict e dt) = arousal_variance (belief e) + q_base (config e) * dt"
proof -
  have skip: "correct_arousal (config e) (predict e dt) obs = (predict e dt, 0, 0)"
    using assms by (rule correct_arousal_skipped)
  have "clamp (arousal (predict e dt)) 0 1 = arousal (predict e dt)"
    using predict_arousal_range [of e dt] by (simp add: clamp_id)
  then show ?thesis
    by (simp add: update_fst_fields correct_point_fields skip predict_fields)
qed

text \<open>
  The theorem on the first update of the default estimator with heart rate 120 and
  confidence exactly 0.3: arousal and variance stay at 1/2 and 1/5.
\<close>

theorem no_arousal_correction_at_low_confidence_witness:
  "hr_confidence obs_low_conf = Some 0.3 \<and>
   arousal (fst (update (constructor no_config) obs_low_conf 0)) = 1 / 2 \<and>
   arousal_variance (fst (update (constructor no_config) obs_low_conf 0)) = 1 / 5"
proof -
  have h: "case hr_confidence obs_low_conf of None \<Rightarrow> True | Some c \<Rightarrow> c \<le> 0.3"
    by (simp add: obs_low_conf_def obs_base_def)
  show ?thesis
    using no_arousal_correction_at_low_confidence [OF h, of "constructor no_config" 0]
    by (simp add: obs_low_conf_def obs_base_def initial_belief_def default_config_def clamp_def)
qed

subsection \<open>C9: variances, innovation covariance and gain\<close>




section \<open>Properties of the worker\<close>

subsection \<open>Auxiliary facts: a buffer of one constant colour\<close>

lemma js_slice_replicate: "\<exists>m. js_slice (replicate n c) s e = replicate m c"
  by (auto simp: js_slice_def Let_def)

lemma mean_replicate_1: "or_one (mean (replicate m 1)) = 1"
  by (cases m) (simp_all add: mean_def or_one_def sum_list_replicate)

lemma stdDev_zeros: "stdDev (replicate m 0) = 0"
  by (simp add: stdDev_def mean_def Let_def sum_list_replicate)

lemma white_fields: "rgb_r white = 1" "rgb_g white = 1" "rgb_b white = 1"
  by (simp_all add: white_def)

lemma pos_sample_white:
  assumes "i < n"
  shows "pos_sample (replicate n white) w i = 0"
proof -
  obtain m where seg:
    "js_slice (replicate n white) (max 0 (int i - w)) (min (int n) (int i + w)) = replicate m white"
    using js_slice_replicate [of n white "max 0 (int i - w)" "min (int n) (int i + w)"] by (elim exE)
  show ?thesis
    using assms by (simp add: pos_sample_def Let_def seg white_fields mean_replicate_1)
qed

lemma computePOS_white: "computePOS (replicate n white) fs = replicate n 0"
  by (simp add: computePOS_def list_eq_iff_nth_eq pos_sample_white)

lemma sum_list_zeros: "set xs \<subseteq> {0::real} \<Longrightarrow> sum_list xs = 0"
  by (induction xs) auto

lemma smoothed_zeros: "smoothed_signal (replicate n 0) = replicate n 0"
proof -
  have "sum_list (take k (drop j (replicate n (0::real)))) = 0" for k j
    by (rule sum_list_zeros) (auto dest: in_set_takeD in_set_dropD)
  then show ?thesis
    by (simp add: smoothed_signal_def Let_def list_eq_iff_nth_eq)
qed

lemma acSignal_white: "acSignal (replicate n white) fs = replicate n 0"
  by (simp add: acSignal_def Let_def computePOS_white smoothed_zeros mean_def sum_list_replicate)

lemma fold_peak_step_zeros:
  "\<forall>i \<in> set is. i < n \<Longrightarrow> fold (peak_step (replicate n 0) 0 d) is st = st"
  by (induction "is" arbitrary: st) (auto simp: peak_step_def)

lemma detectPeaks_zeros: "detectPeaks (replicate n 0) fs = []"
proof -
  have "\<forall>i \<in> set [1..<n - 1]. i < n" by auto
  then show ?thesis
    by (simp add: detectPeaks_def Let_def mean_def stdDev_zeros sum_list_replicate fold_peak_step_zeros)
qed

subsection \<open>C6: too few samples\<close>

text \<open>
  Claim C6. A request whose sample list has fewer than 64 samples is answered with the
  error reply (the thrown \<^verbatim>\<open>Error("Insufficient data")\<close> as the \<^verbatim>\<open>catch\<close> posts it),
  whatever its other fields are: the worker does reply, and the reply is not a
  \<^verbatim>\<open>vitals_result\<close>.
\<close>

theorem short_buffer_is_error:
  assumes "length (rgbData data) < 64"
  shows "onmessage data = Some (error_response ''Error: Insufficient data'')"
  using assms by (simp add: onmessage_def)

text \<open>The theorem on a request of 63 samples.\<close>

theorem short_buffer_is_error_witness:
  "length (rgbData (request_of 63)) < 64 \<and>
   onmessage (request_of 63) = Some (error_response ''Error: Insufficient data'')"
proof -
  have h: "length (rgbData (request_of 63)) < 64" by (simp add: request_of_def)
  show ?thesis using short_buffer_is_error [OF h] h by simp
qed

subsection \<open>C7: fewer than three peaks\<close>

text \<open>
  Claim C7. A request of type \<^verbatim>\<open>process_signal\<close> with at least 64 samples and a sample
  rate other than 0 (with the rate 0 the handler never reaches the peak detection), on
  whose AC pulse signal \<^verbatim>\<open>detectPeaks\<close> finds fewer than three peaks, is answered with
  a \<^verbatim>\<open>vitals_result\<close> whose \<^verbatim>\<open>rmssd\<close>, \<^verbatim>\<open>sdnn\<close> and \<^verbatim>\<open>stressIndex\<close> are 0.
\<close>

theorem few_peaks_zero_hrv:
  assumes "req_type data = ''process_signal''" and "64 \<le> length (rgbData data)"
    and "sampleRate data \<noteq> 0"
    and "length (detectPeaks (acSignal (rgbData data) (sampleRate data)) (sampleRate data)) < 3"
  shows "onmessage data = Some (vitals_result (computeVitals data)) \<and>
         rmssd (res_hrv (computeVitals data)) = 0 \<and>
         sdnn (res_hrv (computeVitals data)) = 0 \<and>
         stressIndex (res_hrv (computeVitals data)) = 0"
  using assms by (simp add: onmessage_def computeVitals_def Let_def hrv_section_def)

text \<open>
  The theorem on 64 samples of one constant colour: the pulse signal is 0 throughout, no
  sample exceeds the threshold and no peak is found.
\<close>

theorem few_peaks_zero_hrv_witness:
  "length (detectPeaks (acSignal (rgbData (request_of 64)) (sampleRate (request_of 64)))
      (sampleRate (request_of 64))) = 0 \<and>
   onmessage (request_of 64) = Some (vitals_result (computeVitals (request_of 64))) \<and>
   res_hrv (computeVitals (request_of 64)) = \<lparr>rmssd = 0, sdnn = 0, stressIndex = 0\<rparr>"
proof -
  have t: "req_type (request_of 64) = ''process_signal''"
    and l: "64 \<le> length (rgbData (request_of 64))"
    and s: "sampleRate (request_of 64) \<noteq> 0"
    by (simp_all add: request_of_def)
  have p: "detectPeaks (acSignal (rgbData (request_of 64)) (sampleRate (request_of 64)))
      (sampleRate (request_of 64)) = []"
    by (simp add: request_of_def acSignal_white detectPeaks_zeros)
  have p3: "length (detectPeaks (acSignal (rgbData (request_of 64)) (sampleRate (request_of 64)))
      (sampleRate (request_of 64))) < 3"
    by (simp add: p)
  show ?thesis
    using few_peaks_zero_hrv [OF t l s p3] by (simp add: p)
qed

section \<open>Properties of the camera engine\<close>

subsection \<open>C10: a frame without a face\<close>

text \<open>
  Claim C10. On an initialised engine (detector and worker set), a frame in which the
  detector finds no face makes \<^verbatim>\<open>processFrame\<close> return the last-known vitals with the
  confidence multiplied by 0.95 and the signal quality set to \<^verbatim>\<open>fair\<close> when the decayed
  confidence exceeds 0.4 and to \<^verbatim>\<open>poor\<close> otherwise; heart rate, respiration rate, HRV,
  SNR, motion level and affective state are those of the last-known vitals, and the
  returned vitals become the last-known ones. \<^verbatim>\<open>mapWorkerResponse\<close> never yields
  \<^verbatim>\<open>fair\<close>.
\<close>

theorem no_face_decays_vitals:
  assumes "detector e" and "worker e" and "faces video = []"
  shows "let old = lastKnownVitals e;
             v = old\<lparr>vitals_confidence := vitals_confidence old * 0.95,
                     signalQuality := (if vitals_confidence old * 0.95 > 0.4 then fair else poor)\<rparr>
         in processFrame e video = Some (v, e\<lparr>lastKnownVitals := v\<rparr>) \<and>
            heartRate v = heartRate old \<and>
            respirationRate v = respirationRate old \<and>
            hrv v = hrv old \<and>
            snr v = snr old \<and>
            motionLevel v = motionLevel old \<and>
            affective v = affective old \<and>
            signalQuality (mapWorkerResponse res) \<noteq> fair"
  using assms by (simp add: processFrame_def decayVitals_def Let_def mapWorkerResponse_def)

text \<open>
  The theorem on two engines: from confidence 0.8 the decayed confidence is 0.76 and the
  quality \<^verbatim>\<open>fair\<close>; from 0.42 it is 0.399 and the quality \<^verbatim>\<open>poor\<close>.
\<close>

theorem no_face_decays_vitals_witness:
  "processFrame (engine_with vitals80) no_face_frame =
     Some (vitals80\<lparr>vitals_confidence := 0.76, signalQuality := fair\<rparr>,
           engine_with (vitals80\<lparr>vitals_confidence := 0.76, signalQuality := fair\<rparr>)) \<and>
   processFrame (engine_with (vitals80\<lparr>vitals_confidence := 0.42\<rparr>)) no_face_frame =
     Some (vitals80\<lparr>vitals_confidence := 0.399, signalQuality := poor\<rparr>,
           engine_with (vitals80\<lparr>vitals_confidence := 0.399, signalQuality := poor\<rparr>))"
proof -
  have d: "detector (engine_with v)" and w: "worker (engine_with v)" for v
    by (simp_all add: engine_with_def)
  have f: "faces no_face_frame = []" by (simp add: no_face_frame_def)
  show ?thesis
    using no_face_decays_vitals [OF d w f, of vitals80]
      no_face_decays_vitals [OF d w f, of "vitals80\<lparr>vitals_confidence := 0.42\<rparr>"]
    by (simp add: engine_with_def vitals80_def Let_def)
qed

section \<open>Properties of the kernel\<close>

lemma dispatch_belief_update:
  "dispatch k (BELIEF_UPDATE b ts) = applyBeliefUpdate (log_event k (BELIEF_UPDATE b ts)) b ts"
  by (simp add: dispatch_def)

lemma log_event_fields:
  "state (log_event k ev) = state k"
  "kernel_config (log_event k ev) = kernel_config k"
  "logBuffer (log_event k ev) = logBuffer k @ [ev]"
  by (simp_all add: log_event_def)

lemma kernel_started_fields:
  "status (state kernel_started) = RUNNING"
  "sessionDuration (state kernel_started) = 0"
  "kernel_config kernel_started = SafetyConfig"
  by (simp_all add: kernel_started_def dispatch_def new_kernel_def initial_state_def log_event_def)

lemma kernel_after_15s_fields:
  "status (state kernel_after_15s) = RUNNING"
  "sessionDuration (state kernel_after_15s) = 15"
  "kernel_config kernel_after_15s = SafetyConfig"
  by (simp_all add: kernel_after_15s_def tick_def kernel_started_fields)

subsection \<open>C1: the emergency halt\<close>

text \<open>
  Claim C1, on the kernel as the specification describes it. Dispatching a BELIEF_UPDATE
  whose prediction error exceeds 0.95 when the elapsed session time has reached the
  configured minimum forces the status SAFETY_LOCK and appends the emergency
  SAFETY_INTERDICTION to the persistence writes, whatever the kernel's whitelist is;
  dispatching any BELIEF_UPDATE before the minimum session time leaves the status as it
  was, logs nothing but the update and writes nothing beyond what the whitelist writes.
  The configured minimum of \<^verbatim>\<open>SafetyConfig\<close> is 10 seconds.
\<close>

theorem emergency_halt_gate:
  "(0.95 < prediction_error b \<and>
    minSessionSecBeforeEmergency (kernel_config k) \<le> sessionDuration (state k) \<longrightarrow>
      status (state (dispatch k (BELIEF_UPDATE b ts))) = SAFETY_LOCK \<and>
      written (dispatch k (BELIEF_UPDATE b ts)) =
        written (log_event k (BELIEF_UPDATE b ts)) @
          [SAFETY_INTERDICTION (prediction_error b) ''EMERGENCY_HALT'' ts] \<and>
      SAFETY_INTERDICTION (prediction_error b) ''EMERGENCY_HALT'' ts
        \<in> set (written (dispatch k (BELIEF_UPDATE b ts)))) \<and>
   (sessionDuration (state k) < minSessionSecBeforeEmergency (kernel_config k) \<longrightarrow>
      status (state (dispatch k (BELIEF_UPDATE b ts))) = status (state k) \<and>
      logBuffer (dispatch k (BELIEF_UPDATE b ts)) = logBuffer k @ [BELIEF_UPDATE b ts] \<and>
      written (dispatch k (BELIEF_UPDATE b ts)) = written (log_event k (BELIEF_UPDATE b ts))) \<and>
   minSessionSecBeforeEmergency SafetyConfig = 10"
  by (simp add: dispatch_belief_update applyBeliefUpdate_def safetyGuard_def log_event_fields
      SafetyConfig_def)

text \<open>
  The theorem on the run of the kernel's test: a new kernel, LOAD_PROTOCOL of 4-7-8,
  START_SESSION, a tick of 15 seconds, then the BELIEF_UPDATE with prediction error 0.99:
  the status is SAFETY_LOCK and the interdiction is written, also by a kernel whose
  whitelist is empty. The same update right after START_SESSION leaves the status RUNNING.
\<close>

theorem emergency_halt_gate_witness:
  "status (state (dispatch kernel_after_15s (BELIEF_UPDATE danger_belief 15000))) = SAFETY_LOCK \<and>
   SAFETY_INTERDICTION 0.99 ''EMERGENCY_HALT'' 15000
     \<in> set (written (dispatch kernel_after_15s (BELIEF_UPDATE danger_belief 15000))) \<and>
   SAFETY_INTERDICTION 0.99 ''EMERGENCY_HALT'' 15000
     \<in> set (written (dispatch (kernel_after_15s\<lparr>whitelist := (\<lambda>ev. False)\<rparr>)
                (BELIEF_UPDATE danger_belief 15000))) \<and>
   status (state (dispatch kernel_started (BELIEF_UPDATE danger_belief 0))) = RUNNING"
proof -
  have pe: "prediction_error danger_belief = 0.99" by (simp add: danger_belief_def)
  have a: "status (state (dispatch kernel_after_15s (BELIEF_UPDATE danger_belief 15000))) = SAFETY_LOCK \<and>
      SAFETY_INTERDICTION 0.99 ''EMERGENCY_HALT'' 15000
        \<in> set (written (dispatch kernel_after_15s (BELIEF_UPDATE danger_belief 15000)))"
    using emergency_halt_gate [of danger_belief kernel_after_15s 15000]
    by (simp add: pe kernel_after_15s_fields SafetyConfig_def)
  have b: "SAFETY_INTERDICTION 0.99 ''EMERGENCY_HALT'' 15000
     \<in> set (written (dispatch (kernel_after_15s\<lparr>whitelist := (\<lambda>ev. False)\<rparr>)
                (BELIEF_UPDATE danger_belief 15000)))"
    using emergency_halt_gate [of danger_belief "kernel_after_15s\<lparr>whitelist := (\<lambda>ev. False)\<rparr>" 15000]
    by (simp add: pe kernel_after_15s_fields SafetyConfig_def)
  have c: "status (state (dispatch kernel_started (BELIEF_UPDATE danger_belief 0))) = RUNNING"
    using emergency_halt_gate [of danger_belief kernel_started 0]
    by (simp add: kernel_started_fields SafetyConfig_def)
  show ?thesis using a b c by simp
qed

end
